theory Spec2Isabelle
  imports Main "HOL-Library.Word" "HOL-Library.Sublist" "HOL-Library.AList"
begin

section \<open>Strings, errors and platform values\<close>

text \<open>
  A JavaScript string is a sequence of 16-bit code units. ASCII text of the source is
  written \<open>js ''...''\<close>; a code unit that an Isabelle literal cannot hold (the
  apostrophe, and everything beyond ASCII) is written as its number, an astral
  character as its surrogate pair.
\<close>

type_synonym jsstring = "16 word list"

definition js :: "string \<Rightarrow> jsstring" where
  "js s = map (\<lambda>c. of_nat (of_char c)) s"

text \<open>
  Values that are thrown or that reject a promise: an error object with its name and its
  \<open>message\<close>.
\<close>

datatype error_name = Error | TypeError | URIError | DOMException

datatype js_error = JsError (err_name: error_name) (err_message: jsstring)

record blob =
  blob_bytes :: "8 word list"
  blob_type :: jsstring

text \<open>\<open>new File(bits, name, {type})\<close>\<close>

record js_file =
  file_bits :: "blob list"
  file_name :: jsstring
  file_type :: jsstring

text \<open>The argument object of \<open>navigator.share\<close> and \<open>navigator.canShare\<close>; a key
  that the object literal does not have is \<open>None\<close>.\<close>

record share_data =
  sd_title :: "jsstring option"
  sd_text :: "jsstring option"
  sd_files :: "js_file list option"

record response =
  resp_ok :: bool
  resp_status :: nat
  resp_blob :: "js_error + blob"

datatype fetch_result = Rejected js_error | Resolved response

text \<open>
  What the browser answers during one operation. A promise that rejects (or a call that
  throws) is \<open>Some error\<close>, one that resolves is \<open>None\<close>; a property of
  \<open>navigator\<close> that is undefined is \<open>None\<close>.
\<close>

record platform =
  location_origin :: jsstring
  net_fetch :: "jsstring \<Rightarrow> fetch_result"
  navigator_share :: "(share_data \<Rightarrow> js_error option) option"
  navigator_canShare :: "(share_data \<Rightarrow> bool) option"
  clipboard_writeText :: "(jsstring \<Rightarrow> js_error option) option"
  createObjectURL :: "nat \<Rightarrow> jsstring"

section \<open>encodeURIComponent\<close>

text \<open>
  The built-in function, as ECMAScript defines it: a code unit of the unreserved set is
  kept; every other code point is written as the percent-escapes of its UTF-8 octets;
  a surrogate that is not part of a pair throws a \<open>URIError\<close>.
\<close>

definition isHighSurrogate :: "16 word \<Rightarrow> bool" where
  "isHighSurrogate c \<longleftrightarrow> 0xD800 \<le> c \<and> c \<le> 0xDBFF"

definition isLowSurrogate :: "16 word \<Rightarrow> bool" where
  "isLowSurrogate c \<longleftrightarrow> 0xDC00 \<le> c \<and> c \<le> 0xDFFF"

definition uriUnescaped :: "16 word \<Rightarrow> bool" where
  "uriUnescaped c \<longleftrightarrow>
     (0x41 \<le> c \<and> c \<le> 0x5A) \<or> (0x61 \<le> c \<and> c \<le> 0x7A) \<or> (0x30 \<le> c \<and> c \<le> 0x39) \<or>
     c \<in> set (js ''-_.!~*()'' @ [0x27])"

definition utf8 :: "nat \<Rightarrow> 8 word list" where
  "utf8 cp =
     (if cp < 0x80 then [of_nat cp]
      else if cp < 0x800 then [of_nat (0xC0 + cp div 0x40), of_nat (0x80 + cp mod 0x40)]
      else if cp < 0x10000 then
        [of_nat (0xE0 + cp div 0x1000), of_nat (0x80 + cp div 0x40 mod 0x40),
         of_nat (0x80 + cp mod 0x40)]
      else
        [of_nat (0xF0 + cp div 0x40000), of_nat (0x80 + cp div 0x1000 mod 0x40),
         of_nat (0x80 + cp div 0x40 mod 0x40), of_nat (0x80 + cp mod 0x40)])"

definition hexDigit :: "nat \<Rightarrow> 16 word" where
  "hexDigit n = (if n < 10 then 0x30 + of_nat n else 0x41 + of_nat (n - 10))"

definition percent :: "8 word \<Rightarrow> jsstring" where
  "percent b = [0x25, hexDigit (unat b div 16), hexDigit (unat b mod 16)]"

definition surrogatePair :: "16 word \<Rightarrow> 16 word \<Rightarrow> nat" where
  "surrogatePair hi lo = (unat hi - 0xD800) * 0x400 + (unat lo - 0xDC00) + 0x10000"

definition malformed :: js_error where
  "malformed = JsError URIError (js ''URI malformed'')"

fun encodeURIComponent :: "jsstring \<Rightarrow> js_error + jsstring" where
  "encodeURIComponent [] = Inr []"
| "encodeURIComponent (c # cs) =
     (if uriUnescaped c then
        (case encodeURIComponent cs of Inl e \<Rightarrow> Inl e | Inr r \<Rightarrow> Inr (c # r))
      else if isLowSurrogate c then Inl malformed
      else if isHighSurrogate c then
        (case cs of
           [] \<Rightarrow> Inl malformed
         | d # ds \<Rightarrow>
             if isLowSurrogate d then
               (case encodeURIComponent ds of
                  Inl e \<Rightarrow> Inl e
                | Inr r \<Rightarrow> Inr (concat (map percent (utf8 (surrogatePair c d))) @ r))
             else Inl malformed)
      else
        (case encodeURIComponent cs of
           Inl e \<Rightarrow> Inl e
         | Inr r \<Rightarrow> Inr (concat (map percent (utf8 (unat c))) @ r)))"

text \<open>\<open>String.prototype.isWellFormed\<close>: no surrogate stands alone.\<close>

fun isWellFormed :: "jsstring \<Rightarrow> bool" where
  "isWellFormed [] = True"
| "isWellFormed (c # cs) =
     (if isLowSurrogate c then False
      else if isHighSurrogate c then
        (case cs of [] \<Rightarrow> False | d # ds \<Rightarrow> isLowSurrogate d \<and> isWellFormed ds)
      else isWellFormed cs)"

section \<open>The page\<close>

text \<open>
  The listener that \<open>showFileShareOptions\<close> adds to the modal closes over the object
  URL; the modal it removes is the element that carries the listener.
\<close>

datatype listener = RevokeAndRemove jsstring

record content =
  content_cssText :: jsstring
  innerHTML :: jsstring

record element =
  node :: nat
  className :: jsstring
  cssText :: jsstring
  children :: "content list"
  click_listeners :: "listener list"

datatype timer = AlertAfter nat jsstring

datatype event =
    Fetch jsstring
  | ConsoleError jsstring js_error
  | ConsoleLog jsstring js_error
  | Alert jsstring
  | CanShare share_data
  | Share share_data
  | CreateObjectURL jsstring
  | RevokeObjectURL jsstring
  | AppendChild nat
  | Remove nat
  | WindowOpen jsstring
  | Download jsstring jsstring
  | ClipboardWriteText jsstring

text \<open>
  \<open>document_body\<close> holds the elements appended to the body, in document order;
  \<open>object_urls\<close> is the browser's store of live object URLs with the blob each one
  keeps alive; \<open>trace\<close> records every call into the platform, in order.
\<close>

record page =
  document_body :: "element list"
  object_urls :: "(jsstring \<times> blob) list"
  minted :: nat
  nodes :: nat
  timers :: "timer list"
  clipboard :: "jsstring option"
  trace :: "event list"

datatype 'a outcome = Return 'a page | Throw js_error page

definition emit :: "event \<Rightarrow> page \<Rightarrow> page" where
  "emit e s = s\<lparr>trace := trace s @ [e]\<rparr>"

section \<open>share.js\<close>

text \<open>
  A method takes the page and returns it with the outcome: \<open>Return\<close> with the value,
  or \<open>Throw\<close> with the error (for an \<open>async\<close> method: the promise resolves or
  rejects). An \<open>async\<close> method runs as one step: each \<open>await\<close> continues with the
  answer of the platform, and no other handler of the page runs in between.
\<close>

record manager =
  baseUrl :: jsstring

definition AudioShareManager :: "platform \<Rightarrow> manager" where
  "AudioShareManager p = \<lparr>baseUrl = location_origin p\<rparr>"

definition showSuccessMessage :: "jsstring \<Rightarrow> page \<Rightarrow> page" where
  "showSuccessMessage message s = emit (Alert ([0x2705] @ js '' '' @ message)) s"

definition showErrorMessage :: "jsstring \<Rightarrow> jsstring \<Rightarrow> page \<Rightarrow> page" where
  "showErrorMessage filename error s =
     emit (Alert ([0x274C] @ js '' Failed to share \"'' @ filename @
       js ''\"\<newline>\<newline>Error: '' @ error)) s"

definition fetchAudioFile :: "platform \<Rightarrow> jsstring \<Rightarrow> jsstring \<Rightarrow> page \<Rightarrow> blob outcome" where
  "fetchAudioFile p directory filename s =
     (let url = directory @ js ''/'' @ filename @ js ''.mp3'';
          s1 = emit (Fetch url) s
      in case net_fetch p url of
           Rejected e \<Rightarrow> Throw e s1
         | Resolved response \<Rightarrow>
             if \<not> resp_ok response
             then Throw (JsError Error (js ''Failed to fetch audio file'')) s1
             else (case resp_blob response of
                     Inl e \<Rightarrow> Throw e s1
                   | Inr b \<Rightarrow> Return b s1))"

text \<open>One \<open>await navigator.share(data)\<close>.\<close>

definition await_share :: "(share_data \<Rightarrow> js_error option) \<Rightarrow> share_data \<Rightarrow> page \<Rightarrow> unit outcome" where
  "await_share share d s =
     (case share d of
        None \<Rightarrow> Return () (emit (Share d) s)
      | Some e \<Rightarrow> Throw e (emit (Share d) s))"

text \<open>The \<open>try\<close> block of \<open>tryNativeFileShare\<close>.\<close>

definition tryNativeFileShare_try ::
  "platform \<Rightarrow> (share_data \<Rightarrow> js_error option) \<Rightarrow> jsstring \<Rightarrow> blob \<Rightarrow> page \<Rightarrow> bool outcome" where
  "tryNativeFileShare_try p share filename audioBlob s =
     (let file = \<lparr>file_bits = [audioBlob], file_name = filename @ js ''.mp3'',
                   file_type = js ''audio/mpeg''\<rparr>;
          probe = \<lparr>sd_title = None, sd_text = None, sd_files = Some [file]\<rparr>;
          with_file = \<lparr>sd_title = Some (js ''Vibeboard Sound: '' @ filename),
                        sd_text = Some (js ''Check out this sound from Vibeboard!''),
                        sd_files = Some [file]\<rparr>;
          text_only = \<lparr>sd_title = Some (js ''Vibeboard Sound: '' @ filename),
                        sd_text = Some (js ''Check out this sound from Vibeboard: \"'' @ filename @ js ''\"''),
                        sd_files = None\<rparr>
      in case navigator_canShare p of
           None \<Rightarrow>
             (case await_share share text_only s of
                Throw e s' \<Rightarrow> Throw e s'
              | Return _ s' \<Rightarrow> Return True s')
         | Some canShare \<Rightarrow>
             if canShare probe then
               (case await_share share with_file (emit (CanShare probe) s) of
                  Throw e s' \<Rightarrow> Throw e s'
                | Return _ s' \<Rightarrow> Return True s')
             else
               (case await_share share text_only (emit (CanShare probe) s) of
                  Throw e s' \<Rightarrow> Throw e s'
                | Return _ s' \<Rightarrow> Return True s'))"

definition tryNativeFileShare :: "platform \<Rightarrow> jsstring \<Rightarrow> blob \<Rightarrow> page \<Rightarrow> bool outcome" where
  "tryNativeFileShare p filename audioBlob s =
     (case navigator_share p of
        None \<Rightarrow> Return False s
      | Some share \<Rightarrow>
          (case tryNativeFileShare_try p share filename audioBlob s of
             Return b s' \<Rightarrow> Return b s'
           | Throw error s' \<Rightarrow> Return False (emit (ConsoleLog (js ''Native share failed:'') error) s')))"

definition createModal :: "nat \<Rightarrow> element" where
  "createModal n =
     \<lparr>node = n, className = js ''share-modal'',
      cssText =
        js ''\<newline>'' @
        js ''      position: fixed; top: 0; left: 0; right: 0; bottom: 0;\<newline>'' @
        js ''      background: rgba(0,0,0,0.5); display: flex; align-items: center;\<newline>'' @
        js ''      justify-content: center; z-index: 1000; padding: 20px;\<newline>'' @
        js ''    '',
      children = [], click_listeners = []\<rparr>"

definition createModalContent :: content where
  "createModalContent =
     \<lparr>content_cssText =
        js ''\<newline>'' @
        js ''      background: white; padding: 30px; border-radius: 20px;\<newline>'' @
        js ''      max-width: 400px; width: 100%; text-align: center;\<newline>'' @
        js ''      box-shadow: 0 20px 40px rgba(0,0,0,0.3);\<newline>'' @
        js ''      max-height: 80vh; overflow-y: auto;\<newline>'' @
        js ''    '',
      innerHTML = []\<rparr>"

text \<open>The text of the five \<open>onclick\<close> attributes that call into the manager.\<close>

definition onclick_call :: "string \<Rightarrow> jsstring \<Rightarrow> jsstring \<Rightarrow> jsstring" where
  "onclick_call method a b =
     js ''audioShareManager.'' @ js method @ js ''('' @ [0x27] @ a @ [0x27] @ js '', '' @
     [0x27] @ b @ [0x27] @ js '')''"

definition onclick_downloadAndShare :: "jsstring \<Rightarrow> jsstring \<Rightarrow> jsstring" where
  "onclick_downloadAndShare filename downloadUrl = onclick_call ''downloadAndShare'' filename downloadUrl"

definition onclick_shareViaEmail :: "jsstring \<Rightarrow> jsstring \<Rightarrow> jsstring" where
  "onclick_shareViaEmail filename downloadUrl = onclick_call ''shareViaEmail'' filename downloadUrl"

definition onclick_copyFileLink :: "jsstring \<Rightarrow> jsstring \<Rightarrow> jsstring" where
  "onclick_copyFileLink directory filename = onclick_call ''copyFileLink'' directory filename"

definition onclick_shareToWhatsApp :: "jsstring \<Rightarrow> jsstring \<Rightarrow> jsstring" where
  "onclick_shareToWhatsApp filename directory = onclick_call ''shareToWhatsApp'' filename directory"

definition onclick_shareToTwitter :: "jsstring \<Rightarrow> jsstring \<Rightarrow> jsstring" where
  "onclick_shareToTwitter filename directory = onclick_call ''shareToTwitter'' filename directory"

text \<open>The template literal that \<open>showFileShareOptions\<close> assigns to \<open>content.innerHTML\<close>.\<close>

definition share_options_html :: "jsstring \<Rightarrow> jsstring \<Rightarrow> jsstring \<Rightarrow> jsstring" where
  "share_options_html filename directory downloadUrl =
     js ''\<newline>'' @
     js ''      <h3 style=\"margin: 0 0 20px 0; font-size: 24px; color: #333;\">Share \"'' @
     filename @
     js ''\"</h3>\<newline>'' @
     js ''      <p style=\"margin-bottom: 25px; color: #666;\">Choose how to share this audio file:<'' @
     js ''/p>\<newline>'' @
     js ''      \<newline>'' @
     js ''      <div style=\"display: flex; flex-direction: column; gap: 15px;\">\<newline>'' @
     js ''        '' @
     js ''<button onclick=\"'' @
     onclick_downloadAndShare filename downloadUrl @
     js ''\"'' @
     js '' \<newline>'' @
     js ''                style=\"background: #10b981; color: white; border: none; padding: 15px; b'' @
     js ''order-radius: 10px; font-size: 16px; cursor: pointer; font-weight: bold;\">\<newline>'' @
     js ''          '' @
     [0xD83D, 0xDCE5] @
     js '' Download File & Share Manually\<newline>'' @
     js ''        </button>\<newline>'' @
     js ''        \<newline>'' @
     js ''        '' @
     js ''<button onclick=\"'' @
     onclick_shareViaEmail filename downloadUrl @
     js ''\"'' @
     js '' \<newline>'' @
     js ''                style=\"background: #3b82f6; color: white; border: none; padding: 15px; b'' @
     js ''order-radius: 10px; font-size: 16px; cursor: pointer;\">\<newline>'' @
     js ''          '' @
     [0xD83D, 0xDCE7] @
     js '' Share via Email\<newline>'' @
     js ''        </button>\<newline>'' @
     js ''        \<newline>'' @
     js ''        '' @
     js ''<button onclick=\"'' @
     onclick_copyFileLink directory filename @
     js ''\"'' @
     js '' \<newline>'' @
     js ''                style=\"background: #8b5cf6; color: white; border: none; padding: 15px; b'' @
     js ''order-radius: 10px; font-size: 16px; cursor: pointer;\">\<newline>'' @
     js ''          '' @
     [0xD83D, 0xDD17] @
     js '' Copy File Link\<newline>'' @
     js ''        </button>\<newline>'' @
     js ''        \<newline>'' @
     js ''        <div style=\"border-top: 1px solid #e5e7eb; margin: 10px 0; padding-top: 15px;\">\<newline>'' @
     js ''          <p style=\"font-size: 14px; color: #6b7280; margin-bottom: 10px;\">Share link to'' @
     js '' social media:</p>\<newline>'' @
     js ''          \<newline>'' @
     js ''          '' @
     js ''<button onclick=\"'' @
     onclick_shareToWhatsApp filename directory @
     js ''\"'' @
     js '' \<newline>'' @
     js ''                  style=\"background: #25d366; color: white; border: none; padding: 12px;'' @
     js '' border-radius: 8px; font-size: 14px; cursor: pointer; width: 100%; margin-bottom: 8px;\"'' @
     js ''>\<newline>'' @
     js ''            '' @
     [0xD83D, 0xDCAC] @
     js '' WhatsApp\<newline>'' @
     js ''          </button>\<newline>'' @
     js ''          \<newline>'' @
     js ''          '' @
     js ''<button onclick=\"'' @
     onclick_shareToTwitter filename directory @
     js ''\"'' @
     js '' \<newline>'' @
     js ''                  style=\"background: #1da1f2; color: white; border: none; padding: 12px;'' @
     js '' border-radius: 8px; font-size: 14px; cursor: pointer; width: 100%;\">\<newline>'' @
     js ''            '' @
     [0xD83D, 0xDC26] @
     js '' Twitter\<newline>'' @
     js ''          </button>\<newline>'' @
     js ''        </div>\<newline>'' @
     js ''      </div>\<newline>'' @
     js ''      \<newline>'' @
     js ''      <button onclick=\"this.closest('' @
     [0x27] @
     js ''.share-modal'' @
     [0x27] @
     js '').remove()\" \<newline>'' @
     js ''              style=\"background: #ef4444; color: white; border: none; padding: 12px 24px'' @
     js ''; border-radius: 10px; font-size: 16px; cursor: pointer; margin-top: 20px;\">\<newline>'' @
     js ''        Close\<newline>'' @
     js ''      </button>\<newline>'' @
     js ''    ''"

definition showFileShareOptions :: "platform \<Rightarrow> jsstring \<Rightarrow> jsstring \<Rightarrow> blob \<Rightarrow> page \<Rightarrow> page" where
  "showFileShareOptions p filename directory audioBlob s =
     (let modal = createModal (nodes s);
          content = createModalContent;
          downloadUrl = createObjectURL p (minted s);
          s1 = emit (CreateObjectURL downloadUrl)
                 (s\<lparr>nodes := Suc (nodes s), minted := Suc (minted s),
                    object_urls := object_urls s @ [(downloadUrl, audioBlob)]\<rparr>);
          content' = content\<lparr>innerHTML := share_options_html filename directory downloadUrl\<rparr>;
          modal' = modal\<lparr>children := [content'], click_listeners := [RevokeAndRemove downloadUrl]\<rparr>
      in emit (AppendChild (node modal')) (s1\<lparr>document_body := document_body s1 @ [modal']\<rparr>))"

text \<open>The \<open>try\<close> block of \<open>shareSound\<close>.\<close>

definition shareSound_try :: "platform \<Rightarrow> jsstring \<Rightarrow> jsstring \<Rightarrow> page \<Rightarrow> unit outcome" where
  "shareSound_try p filename directory s =
     (case fetchAudioFile p directory filename s of
        Throw e s1 \<Rightarrow> Throw e s1
      | Return audioBlob s1 \<Rightarrow>
          (case tryNativeFileShare p filename audioBlob s1 of
             Throw e s2 \<Rightarrow> Throw e s2
           | Return shared s2 \<Rightarrow>
               if shared then Return () s2
               else Return () (showFileShareOptions p filename directory audioBlob s2)))"

definition shareSound :: "platform \<Rightarrow> jsstring \<Rightarrow> jsstring \<Rightarrow> page \<Rightarrow> unit outcome" where
  "shareSound p filename directory s =
     (case shareSound_try p filename directory s of
        Return u s' \<Rightarrow> Return u s'
      | Throw error s' \<Rightarrow>
          Return () (showErrorMessage filename (err_message error)
                       (emit (ConsoleError (js ''Share failed:'') error) s')))"

text \<open>\<open>element.remove()\<close>: an element that is not in the document stays as it is.\<close>

definition element_remove :: "nat \<Rightarrow> page \<Rightarrow> page" where
  "element_remove n s =
     (if n \<in> node ` set (document_body s)
      then emit (Remove n) (s\<lparr>document_body := filter (\<lambda>e. node e \<noteq> n) (document_body s)\<rparr>)
      else s)"

text \<open>\<open>document.querySelector('.share-modal')\<close> is the first such element of the
  document.\<close>

definition closeModal :: "page \<Rightarrow> page" where
  "closeModal s =
     (case find (\<lambda>e. className e = js ''share-modal'') (document_body s) of
        None \<Rightarrow> s
      | Some modal \<Rightarrow> element_remove (node modal) s)"

text \<open>
  The anchor that \<open>downloadAndShare\<close> creates is appended to the body, clicked and
  removed again within the call: what remains of it is the download that the click
  started. The callback of \<open>setTimeout\<close> is a pending timer of the page.
\<close>

definition downloadAndShare :: "jsstring \<Rightarrow> jsstring \<Rightarrow> page \<Rightarrow> page" where
  "downloadAndShare filename downloadUrl s =
     (let s1 = emit (Download downloadUrl (filename @ js ''.mp3'')) s;
          s2 = s1\<lparr>timers := timers s1 @
                 [AlertAfter 500
                    ([0x2705] @ js '' \"'' @ filename @
                     js ''.mp3\" downloaded!\<newline>\<newline>Now you can:\<newline>'' @
                     [0x2022] @ js '' Share it directly to Instagram Stories\<newline>'' @
                     [0x2022] @ js '' Send via Messenger\<newline>'' @
                     [0x2022] @ js '' Add to any social media app\<newline>'' @
                     [0x2022] @ js '' Send via AirDrop/Bluetooth'')]\<rparr>
      in closeModal s2)"

definition email_subject :: "jsstring \<Rightarrow> jsstring" where
  "email_subject filename = js ''Check out this sound: '' @ filename"

definition email_body :: "manager \<Rightarrow> jsstring \<Rightarrow> jsstring" where
  "email_body m filename =
     js ''Hey! Check out this awesome sound from Vibeboard: \"'' @ filename @
     js ''\"\<newline>\<newline>I'' @ [0x27] @
     js ''ve attached the audio file for you to enjoy!\<newline>\<newline>Note: Download the file from: '' @
     baseUrl m @ js ''/sounds/'' @ filename @ js ''.mp3''"

definition shareViaEmail :: "manager \<Rightarrow> jsstring \<Rightarrow> jsstring \<Rightarrow> page \<Rightarrow> unit outcome" where
  "shareViaEmail m filename downloadUrl s =
     (case encodeURIComponent (email_subject filename) of
        Inl e \<Rightarrow> Throw e s
      | Inr subject \<Rightarrow>
          (case encodeURIComponent (email_body m filename) of
             Inl e \<Rightarrow> Throw e s
           | Inr body \<Rightarrow>
               Return ()
                 (downloadAndShare filename downloadUrl
                    (emit (WindowOpen (js ''mailto:?subject='' @ subject @ js ''&body='' @ body)) s))))"

definition fileUrl :: "manager \<Rightarrow> jsstring \<Rightarrow> jsstring \<Rightarrow> jsstring" where
  "fileUrl m directory filename = baseUrl m @ js ''/'' @ directory @ js ''/'' @ filename @ js ''.mp3''"

text \<open>
  The \<open>try\<close> block of \<open>copyFileLink\<close>. Where \<open>navigator.clipboard\<close> is undefined
  the call throws a \<open>TypeError\<close> before anything is written.
\<close>

definition copyFileLink_try :: "platform \<Rightarrow> jsstring \<Rightarrow> page \<Rightarrow> unit outcome" where
  "copyFileLink_try p url s =
     (case clipboard_writeText p of
        None \<Rightarrow> Throw (JsError TypeError (js ''navigator.clipboard is undefined'')) s
      | Some writeText \<Rightarrow>
          (case writeText url of
             Some e \<Rightarrow> Throw e (emit (ClipboardWriteText url) s)
           | None \<Rightarrow>
               Return ()
                 (showSuccessMessage
                    (js ''File link copied!\<newline>\<newline>\"'' @ url @
                     js ''\"\<newline>\<newline>Paste this anywhere to share the audio file.'')
                    ((emit (ClipboardWriteText url) s)\<lparr>clipboard := Some url\<rparr>))))"

definition copyFileLink :: "platform \<Rightarrow> manager \<Rightarrow> jsstring \<Rightarrow> jsstring \<Rightarrow> page \<Rightarrow> unit outcome" where
  "copyFileLink p m directory filename s =
     (case copyFileLink_try p (fileUrl m directory filename) s of
        Return _ s' \<Rightarrow> Return () (closeModal s')
      | Throw error s' \<Rightarrow>
          Return () (closeModal (showErrorMessage filename (js ''Could not copy to clipboard'') s')))"

definition whatsapp_message :: "manager \<Rightarrow> jsstring \<Rightarrow> jsstring \<Rightarrow> jsstring" where
  "whatsapp_message m filename directory =
     [0xD83C, 0xDFB5] @ js '' Check out this sound: \"'' @ filename @
     js ''\"\<newline>\<newline>Listen here: '' @ fileUrl m directory filename"

definition shareToWhatsApp :: "manager \<Rightarrow> jsstring \<Rightarrow> jsstring \<Rightarrow> page \<Rightarrow> unit outcome" where
  "shareToWhatsApp m filename directory s =
     (case encodeURIComponent (whatsapp_message m filename directory) of
        Inl e \<Rightarrow> Throw e s
      | Inr message \<Rightarrow>
          Return () (closeModal (emit (WindowOpen (js ''https://wa.me/?text='' @ message)) s)))"

definition twitter_message :: "manager \<Rightarrow> jsstring \<Rightarrow> jsstring \<Rightarrow> jsstring" where
  "twitter_message m filename directory =
     [0xD83C, 0xDFB5] @ js '' Check out this awesome sound: \"'' @ filename @ js ''\" '' @
     fileUrl m directory filename"

definition shareToTwitter :: "manager \<Rightarrow> jsstring \<Rightarrow> jsstring \<Rightarrow> page \<Rightarrow> unit outcome" where
  "shareToTwitter m filename directory s =
     (case encodeURIComponent (twitter_message m filename directory) of
        Inl e \<Rightarrow> Throw e s
      | Inr message \<Rightarrow>
          Return ()
            (closeModal (emit (WindowOpen (js ''https://twitter.com/intent/tweet?text='' @ message)) s)))"

subsection \<open>Clicks on the modal\<close>

text \<open>
  \<open>URL.revokeObjectURL\<close> drops the URL from the store, and with it the reference that
  kept the blob alive.
\<close>

definition revokeObjectURL :: "jsstring \<Rightarrow> page \<Rightarrow> page" where
  "revokeObjectURL url s =
     emit (RevokeObjectURL url) (s\<lparr>object_urls := filter (\<lambda>(u, b). u \<noteq> url) (object_urls s)\<rparr>)"

text \<open>A click on the backdrop, where the target of the event is the modal itself: the
  listener that \<open>showFileShareOptions\<close> added runs.\<close>

definition run_listener :: "element \<Rightarrow> page \<Rightarrow> listener \<Rightarrow> page" where
  "run_listener modal s l =
     (case l of RevokeAndRemove downloadUrl \<Rightarrow> element_remove (node modal) (revokeObjectURL downloadUrl s))"

definition click_backdrop :: "element \<Rightarrow> page \<Rightarrow> page" where
  "click_backdrop modal s = foldl (run_listener modal) s (click_listeners modal)"

text \<open>The Close button: \<open>this.closest('.share-modal').remove()\<close>. The click bubbles to
  the modal, whose listener ignores it: the target is the button.\<close>

definition click_close :: "element \<Rightarrow> page \<Rightarrow> page" where
  "click_close modal s = element_remove (node modal) s"

text \<open>
  The five buttons that call the manager, on a page whose file name, directory and URL hold
  no apostrophe, backslash, quotation mark, line break or markup. There the \<open>onclick\<close>
  attribute of a button is the whole text that \<open>onclick_call\<close> wrote, and the two string
  literals of that text read back as the names that \<open>showFileShareOptions\<close> put in:
  the click runs the method on these arguments. With other names the attribute ends at the
  first quotation mark, or its text is no call of the method on these arguments, and the
  handler may not compile at all; \<open>click_action\<close> does not describe the button then. It
  is applied to the example page only, whose names are plain.
\<close>

datatype action = DownloadAndShare | ShareViaEmail | CopyFileLink | ShareToWhatsApp | ShareToTwitter

definition click_action ::
  "platform \<Rightarrow> manager \<Rightarrow> action \<Rightarrow> jsstring \<Rightarrow> jsstring \<Rightarrow> jsstring \<Rightarrow> page \<Rightarrow> unit outcome" where
  "click_action p m a filename directory downloadUrl s =
     (case a of
        DownloadAndShare \<Rightarrow> Return () (downloadAndShare filename downloadUrl s)
      | ShareViaEmail \<Rightarrow> shareViaEmail m filename downloadUrl s
      | CopyFileLink \<Rightarrow> copyFileLink p m directory filename s
      | ShareToWhatsApp \<Rightarrow> shareToWhatsApp m filename directory s
      | ShareToTwitter \<Rightarrow> shareToTwitter m filename directory s)"

section \<open>service-worker.js\<close>

definition CACHE_NAME :: jsstring where
  "CACHE_NAME = js ''vibeboard-cache-v1''"

definition urlsToCache :: "jsstring list" where
  "urlsToCache =
     [js ''/'',
      js ''/index.html'',
      js ''/icon-192.png'',
      js ''/icon-512.png'',
      js ''/sounds/gehaald.mp3'',
      js ''/sounds/plopperdeplop.mp3'',
      js ''/sounds/hallowki.mp3'',
      js ''/sounds/toenplots.mp3'',
      js ''/sounds/luiheeftaids.mp3'',
      js ''/sounds/ikrookeenpijp.mp3'',
      js ''/sounds/eruit.mp3'',
      js ''/sounds/behalvelui.mp3'',
      js ''/sounds/dommerik.mp3'',
      js ''/sounds/seksmetsmal.mp3'',
      js ''/sounds/klus!.mp3'',
      js ''/sounds/geenaids.mp3'']"

text \<open>
  The Cache API. A cache maps the URL of a request to the response stored for it; the
  cache storage holds the named caches in the order of their creation. A request is its
  URL; a path of the manifest is resolved against the origin of the worker.
\<close>

type_synonym cache = "(jsstring \<times> response) list"

type_synonym cache_storage = "(jsstring \<times> cache) list"

definition caches_open :: "jsstring \<Rightarrow> cache_storage \<Rightarrow> cache \<times> cache_storage" where
  "caches_open name cs =
     (case map_of cs name of
        Some c \<Rightarrow> (c, cs)
      | None \<Rightarrow> ([], cs @ [(name, [])]))"

text \<open>\<open>cache.addAll\<close> fetches every request and stores the responses only when all of
  them arrived with an OK status; otherwise it rejects and stores nothing.\<close>

fun fetch_all :: "(jsstring \<Rightarrow> fetch_result) \<Rightarrow> jsstring list \<Rightarrow> js_error + (jsstring \<times> response) list" where
  "fetch_all net [] = Inr []"
| "fetch_all net (u # us) =
     (case net u of
        Rejected e \<Rightarrow> Inl e
      | Resolved r \<Rightarrow>
          if \<not> resp_ok r then Inl (JsError TypeError (js ''Request failed''))
          else (case fetch_all net us of
                  Inl e \<Rightarrow> Inl e
                | Inr rs \<Rightarrow> Inr ((u, r) # rs)))"

definition cache_addAll :: "(jsstring \<Rightarrow> fetch_result) \<Rightarrow> jsstring list \<Rightarrow> cache \<Rightarrow> js_error + cache" where
  "cache_addAll net urls c =
     (case fetch_all net urls of
        Inl e \<Rightarrow> Inl e
      | Inr rs \<Rightarrow> Inr (fold (\<lambda>(u, r). AList.update u r) rs c))"

fun caches_match :: "cache_storage \<Rightarrow> jsstring \<Rightarrow> response option" where
  "caches_match [] request = None"
| "caches_match ((name, c) # cs) request =
     (case map_of c request of
        Some response \<Rightarrow> Some response
      | None \<Rightarrow> caches_match cs request)"

text \<open>
  The \<open>install\<close> listener: the promise given to \<open>event.waitUntil\<close>. \<open>Some error\<close> is
  its rejection, with which the installation fails.
\<close>

definition install :: "(jsstring \<Rightarrow> fetch_result) \<Rightarrow> jsstring \<Rightarrow> cache_storage \<Rightarrow> js_error option \<times> cache_storage" where
  "install net origin cs =
     (case caches_open CACHE_NAME cs of
        (c, cs1) \<Rightarrow>
          (case cache_addAll net (map (\<lambda>path. origin @ path) urlsToCache) c of
             Inl e \<Rightarrow> (Some e, cs1)
           | Inr c' \<Rightarrow> (None, AList.update CACHE_NAME c' cs1)))"

text \<open>
  The \<open>fetch\<close> listener: the promise given to \<open>event.respondWith\<close>, and the requests
  that went to the network for it.
\<close>

definition on_fetch :: "(jsstring \<Rightarrow> fetch_result) \<Rightarrow> cache_storage \<Rightarrow> jsstring \<Rightarrow> fetch_result \<times> jsstring list" where
  "on_fetch net cs request =
     (case caches_match cs request of
        Some response \<Rightarrow> (Resolved response, [])
      | None \<Rightarrow> (net request, [request]))"

section \<open>What an operation did\<close>

text \<open>The events that an operation added to the trace, and the calls of one kind among
  them.\<close>

definition new_events :: "page \<Rightarrow> page \<Rightarrow> event list" where
  "new_events s s' = drop (length (trace s)) (trace s')"

definition alerts :: "event list \<Rightarrow> jsstring list" where
  "alerts t = [text. Alert text \<leftarrow> t]"

definition shares :: "event list \<Rightarrow> share_data list" where
  "shares t = [d. Share d \<leftarrow> t]"

definition capability_checks :: "event list \<Rightarrow> share_data list" where
  "capability_checks t = [d. CanShare d \<leftarrow> t]"

definition window_opens :: "event list \<Rightarrow> jsstring list" where
  "window_opens t = [url. WindowOpen url \<leftarrow> t]"

definition clipboard_writes :: "event list \<Rightarrow> jsstring list" where
  "clipboard_writes t = [text. ClipboardWriteText text \<leftarrow> t]"

text \<open>The windows that an action opened, whether it returned or threw.\<close>

definition opened :: "page \<Rightarrow> unit outcome \<Rightarrow> jsstring list" where
  "opened s r =
     (case r of
        Return u s' \<Rightarrow> window_opens (new_events s s')
      | Throw e s' \<Rightarrow> window_opens (new_events s s'))"

text \<open>The fetch of the audio file failed: the network rejected it, or the status is not OK.\<close>

definition fetch_failed :: "fetch_result \<Rightarrow> bool" where
  "fetch_failed r = (case r of Rejected e \<Rightarrow> True | Resolved response \<Rightarrow> \<not> resp_ok response)"

text \<open>The reason of a failed fetch: the message of the rejection, and for a response
  that is not OK the message of the error that \<open>fetchAudioFile\<close> throws.\<close>

definition failure_reason :: "fetch_result \<Rightarrow> jsstring" where
  "failure_reason r =
     (case r of
        Rejected e \<Rightarrow> err_message e
      | Resolved response \<Rightarrow> js ''Failed to fetch audio file'')"

text \<open>The blob that \<open>fetchAudioFile\<close> returns, when it returns one.\<close>

definition fetched :: "fetch_result \<Rightarrow> blob option" where
  "fetched r =
     (case r of
        Rejected e \<Rightarrow> None
      | Resolved response \<Rightarrow>
          if resp_ok response
          then (case resp_blob response of Inl e \<Rightarrow> None | Inr b \<Rightarrow> Some b)
          else None)"

text \<open>The file that \<open>tryNativeFileShare\<close> builds, and the answer of the capability
  check for it (no check, no capability).\<close>

definition mp3_file :: "jsstring \<Rightarrow> blob \<Rightarrow> js_file" where
  "mp3_file filename b =
     \<lparr>file_bits = [b], file_name = filename @ js ''.mp3'', file_type = js ''audio/mpeg''\<rparr>"

definition can_share_file :: "platform \<Rightarrow> js_file \<Rightarrow> bool" where
  "can_share_file p f =
     (case navigator_canShare p of
        None \<Rightarrow> False
      | Some canShare \<Rightarrow> canShare \<lparr>sd_title = None, sd_text = None, sd_files = Some [f]\<rparr>)"

abbreviation (input) probe_data :: "jsstring \<Rightarrow> blob \<Rightarrow> share_data" where
  "probe_data filename b \<equiv>
     \<lparr>sd_title = None, sd_text = None, sd_files = Some [mp3_file filename b]\<rparr>"

abbreviation (input) file_data :: "jsstring \<Rightarrow> blob \<Rightarrow> share_data" where
  "file_data filename b \<equiv>
     \<lparr>sd_title = Some (js ''Vibeboard Sound: '' @ filename),
      sd_text = Some (js ''Check out this sound from Vibeboard!''),
      sd_files = Some [mp3_file filename b]\<rparr>"

abbreviation (input) text_data :: "jsstring \<Rightarrow> share_data" where
  "text_data filename \<equiv>
     \<lparr>sd_title = Some (js ''Vibeboard Sound: '' @ filename),
      sd_text = Some (js ''Check out this sound from Vibeboard: \"'' @ filename @ js ''\"''),
      sd_files = None\<rparr>"

text \<open>The one call of \<open>navigator.share\<close> that \<open>tryNativeFileShare\<close> makes, and where
  it leaves the page.\<close>

definition after_share :: "(share_data \<Rightarrow> js_error option) \<Rightarrow> share_data \<Rightarrow> page \<Rightarrow> bool outcome" where
  "after_share share d s =
     (case share d of
        None \<Rightarrow> Return True (emit (Share d) s)
      | Some e \<Rightarrow> Return False (emit (ConsoleLog (js ''Native share failed:'') e) (emit (Share d) s)))"

text \<open>
  What the browser makes of the markup that \<open>showFileShareOptions\<close> assigns to
  \<open>innerHTML\<close>: the values of the \<open>onclick\<close> attributes of the start tags written
  \<open><button onclick="\<close>, in the order of the document. A double-quoted attribute value
  ends at the next quotation mark, whatever the author meant to follow it; what comes after
  that mark is read as further attributes of the tag and is no part of the handler.

  The markup is read as it is written: a character reference such as \<open>&quot;\<close> is not
  decoded, and \<open><button onclick="\<close> counts wherever it stands. The template holds no
  character reference and no such text outside its six buttons, so a difference from the
  browser can only come in with a file name, directory or URL that holds \<open>&\<close> or
  \<open><\<close>.
\<close>

definition button_onclick :: jsstring where
  "button_onclick = js ''<button onclick=\"''"

definition attribute_value :: "jsstring \<Rightarrow> jsstring" where
  "attribute_value xs = takeWhile (\<lambda>c. c \<noteq> 0x22) xs"

definition after_attribute :: "jsstring \<Rightarrow> jsstring" where
  "after_attribute xs = dropWhile (\<lambda>c. c \<noteq> 0x22) xs"

function onclick_values :: "jsstring \<Rightarrow> jsstring list" where
  "onclick_values [] = []"
| "onclick_values (c # cs) =
     (if prefix button_onclick (c # cs)
      then attribute_value (drop (length button_onclick) (c # cs)) #
           onclick_values (after_attribute (drop (length button_onclick) (c # cs)))
      else onclick_values cs)"
  by pat_completeness auto
termination
proof (relation "measure length")
  show "wf (measure length)"
    by simp
next
  fix c :: "16 word" and cs :: jsstring
  have "length (after_attribute (drop (length button_onclick) (c # cs)))
      \<le> length (drop (length button_onclick) (c # cs))"
    unfolding after_attribute_def by (rule length_dropWhile_le)
  also have "\<dots> < length (c # cs)"
    by (simp add: button_onclick_def js_def)
  finally show "(after_attribute (drop (length button_onclick) (c # cs)), c # cs) \<in> measure length"
    by simp
next
  fix c :: "16 word" and cs :: jsstring
  show "(cs, c # cs) \<in> measure length"
    by simp
qed

declare onclick_values.simps(2) [simp del]

text \<open>A literal piece of markup in which no \<open><b\<close> occurs and which does not end with
  \<open><\<close>: no button starts in it, nor across its end.\<close>

fun no_button_start :: "string \<Rightarrow> bool" where
  "no_button_start [] = True"
| "no_button_start [c] = (c \<noteq> CHR ''<'')"
| "no_button_start (c # d # s) =
     ((if c = CHR ''<'' then d \<noteq> CHR ''b'' else True) \<and> no_button_start (d # s))"

text \<open>The clipboard accepts the text: \<open>navigator.clipboard\<close> exists and
  \<open>writeText\<close> resolves.\<close>

definition clipboard_accepts :: "platform \<Rightarrow> jsstring \<Rightarrow> bool" where
  "clipboard_accepts p url =
     (case clipboard_writeText p of
        None \<Rightarrow> False
      | Some writeText \<Rightarrow> writeText url = None)"

section \<open>Example platforms and pages\<close>

text \<open>The page before anything was shared.\<close>

definition empty_page :: page where
  "empty_page =
     \<lparr>document_body = [], object_urls = [], minted = 0, nodes = 0, timers = [],
      clipboard = None, trace = []\<rparr>"

text \<open>A platform with no share surface and no clipboard, on which every fetch is answered
  with status 404.\<close>

definition platform_404 :: platform where
  "platform_404 =
     \<lparr>location_origin = js ''https://vibeboard.example'',
      net_fetch = (\<lambda>url. Resolved \<lparr>resp_ok = False, resp_status = 404,
                     resp_blob = Inr \<lparr>blob_bytes = [], blob_type = js ''text/html''\<rparr>\<rparr>),
      navigator_share = None, navigator_canShare = None, clipboard_writeText = None,
      createObjectURL = (\<lambda>n. js ''blob:https://vibeboard.example/'' @ replicate (Suc n) 0x61)\<rparr>"

text \<open>A blob of three bytes, and a platform without any share surface and without
  clipboard, on which every fetch is answered with that blob.\<close>

definition mp3 :: blob where
  "mp3 = \<lparr>blob_bytes = [0x49, 0x44, 0x33], blob_type = js ''audio/mpeg''\<rparr>"

definition platform_plain :: platform where
  "platform_plain =
     \<lparr>location_origin = js ''https://vibeboard.example'',
      net_fetch = (\<lambda>url. Resolved \<lparr>resp_ok = True, resp_status = 200, resp_blob = Inr mp3\<rparr>),
      navigator_share = None, navigator_canShare = None, clipboard_writeText = None,
      createObjectURL = (\<lambda>n. js ''blob:https://vibeboard.example/'' @ replicate (Suc n) 0x61)\<rparr>"

text \<open>The same platform with a share surface that accepts every share: without a
  capability check, with one that accepts files, and with one that refuses them.\<close>

definition platform_share :: platform where
  "platform_share = platform_plain\<lparr>navigator_share := Some (\<lambda>d. None)\<rparr>"

definition platform_files :: platform where
  "platform_files = platform_share\<lparr>navigator_canShare := Some (\<lambda>d. True)\<rparr>"

definition platform_no_files :: platform where
  "platform_no_files = platform_share\<lparr>navigator_canShare := Some (\<lambda>d. False)\<rparr>"

text \<open>A platform whose share surface rejects every share: the user dismissed the sheet.\<close>

definition platform_dismissed :: platform where
  "platform_dismissed =
     platform_files\<lparr>navigator_share := Some (\<lambda>d. Some (JsError DOMException (js ''Share canceled'')))\<rparr>"

text \<open>The platforms of the examples with a clipboard: one that accepts every text, and
  one that refuses every text.\<close>

definition platform_clipboard :: platform where
  "platform_clipboard = platform_plain\<lparr>clipboard_writeText := Some (\<lambda>url. None)\<rparr>"

definition platform_clipboard_denied :: platform where
  "platform_clipboard_denied =
     platform_plain\<lparr>clipboard_writeText :=
       Some (\<lambda>url. Some (JsError DOMException (js ''Write permission denied.'')))\<rparr>"

text \<open>The manager of the example pages.\<close>

definition example_manager :: manager where
  "example_manager = AudioShareManager platform_plain"

text \<open>A page that shows one modal, over the object URL of one blob.\<close>

definition modal_page :: page where
  "modal_page = showFileShareOptions platform_plain (js ''gehaald'') (js ''sounds'') mp3 empty_page"

text \<open>The origin of the example worker.\<close>

definition example_origin :: jsstring where
  "example_origin = js ''https://vibeboard.example''"

text \<open>The answers of the example network, and a cache storage that holds one response,
  cached for the root document by an earlier worker.\<close>

definition page_response :: response where
  "page_response =
     \<lparr>resp_ok = True, resp_status = 200,
      resp_blob = Inr \<lparr>blob_bytes = [0x3C, 0x21], blob_type = js ''text/html''\<rparr>\<rparr>"

definition mp3_response :: response where
  "mp3_response = \<lparr>resp_ok = True, resp_status = 200, resp_blob = Inr mp3\<rparr>"

definition old_caches :: cache_storage where
  "old_caches = [(js ''vibeboard-cache-v0'', [(js ''https://vibeboard.example/'', page_response)])]"

section \<open>Traces and lists\<close>

lemma emit_fields:
  "document_body (emit e s) = document_body s"
  "object_urls (emit e s) = object_urls s"
  "minted (emit e s) = minted s"
  "nodes (emit e s) = nodes s"
  "trace (emit e s) = trace s @ [e]"
  by (simp_all add: emit_def)

lemma new_events_append [simp]: "trace s' = trace s @ t \<Longrightarrow> new_events s s' = t"
  by (simp add: new_events_def)

lemma sublist_mid: "sublist x (a @ x @ b)"
  by (auto simp: sublist_def)

lemma sublist_end: "sublist x (a @ x)"
  using sublist_mid [of x a "[]"] by simp

lemma sublist_skip: "sublist x ys \<Longrightarrow> sublist x (a @ ys)"
  by (metis append.assoc sublist_def)

lemmas sample_platforms =
  platform_plain_def platform_share_def platform_files_def platform_no_files_def
  platform_dismissed_def

section \<open>encodeURIComponent\<close>

lemma unescaped_not_surrogate:
  assumes "uriUnescaped c"
  shows "\<not> isLowSurrogate c" and "\<not> isHighSurrogate c"
  using assms
  by (auto simp: uriUnescaped_def isLowSurrogate_def isHighSurrogate_def js_def word_le_nat_alt)

lemma encodeURIComponent_error:
  "encodeURIComponent s = Inl e \<Longrightarrow> e = malformed"
  by (induction s arbitrary: e rule: encodeURIComponent.induct)
     (auto split: if_splits sum.splits list.splits)

lemma encodeURIComponent_wellformed:
  "isWellFormed s \<longleftrightarrow> (\<exists>r. encodeURIComponent s = Inr r)"
  by (induction s rule: encodeURIComponent.induct)
     (auto simp: unescaped_not_surrogate split: sum.splits list.splits)

text \<open>The encoding of a text is the encodings of its parts, one after the other, when
  no part is cut inside a surrogate pair.\<close>

lemma encodeURIComponent_append:
  assumes "isWellFormed a"
  shows "encodeURIComponent (a @ b) =
           (case encodeURIComponent a of
              Inl e \<Rightarrow> Inl e
            | Inr ra \<Rightarrow>
                (case encodeURIComponent b of
                   Inl e \<Rightarrow> Inl e
                 | Inr rb \<Rightarrow> Inr (ra @ rb)))"
  using assms
proof (induction a rule: isWellFormed.induct)
  case 1
  show ?case
    by (simp split: sum.splits)
next
  case (2 c cs)
  from "2.prems" have not_low: "\<not> isLowSurrogate c"
    by (simp split: if_splits)
  show ?case
  proof (cases "isHighSurrogate c")
    case True
    with "2.prems" not_low obtain d ds where
      cs: "cs = d # ds" and low: "isLowSurrogate d" and rest: "isWellFormed ds"
      by (auto split: list.splits)
    from True have escaped: "\<not> uriUnescaped c"
      using unescaped_not_surrogate(2) by blast
    from "2.IH"(1) [OF not_low True cs rest]
    show ?thesis
      by (simp add: cs low True not_low escaped split: sum.splits)
  next
    case False
    with "2.prems" not_low have rest: "isWellFormed cs"
      by simp
    from "2.IH"(2) [OF not_low False rest]
    show ?thesis
      by (simp add: False not_low split: sum.splits)
  qed
qed

lemma encodeURIComponent_append_Inr:
  assumes "encodeURIComponent a = Inr ra" and "encodeURIComponent b = Inr rb"
  shows "encodeURIComponent (a @ b) = Inr (ra @ rb)"
proof -
  from assms(1) have "isWellFormed a"
    by (auto simp: encodeURIComponent_wellformed)
  then show ?thesis
    by (simp add: encodeURIComponent_append assms)
qed

lemma isWellFormed_append:
  "isWellFormed a \<Longrightarrow> isWellFormed b \<Longrightarrow> isWellFormed (a @ b)"
  by (auto simp: encodeURIComponent_wellformed encodeURIComponent_append)

lemma ascii_not_surrogate:
  "\<not> isLowSurrogate (of_nat (of_char c))" "\<not> isHighSurrogate (of_nat (of_char c))"
proof -
  define w :: "16 word" where "w = of_nat (of_char c)"
  have small: "of_char c < (256 :: nat)"
    by (rule nat_of_char_less_256)
  then have "of_char c < (65536 :: nat)"
    by linarith
  then have "unat w = of_char c"
    by (simp add: w_def unat_of_nat)
  with small have "unat w < 256"
    by (simp only:)
  then have "\<not> isLowSurrogate w" "\<not> isHighSurrogate w"
    by (simp_all add: isLowSurrogate_def isHighSurrogate_def word_le_nat_alt)
  then show "\<not> isLowSurrogate (of_nat (of_char c))" "\<not> isHighSurrogate (of_nat (of_char c))"
    unfolding w_def by blast+
qed

lemma isWellFormed_js [simp]: "isWellFormed (js s)"
  by (induction s) (simp_all add: js_def ascii_not_surrogate)

lemma isWellFormed_pair [simp]: "isWellFormed [0xD83C, 0xDFB5]"
  by (simp add: isLowSurrogate_def isHighSurrogate_def)

lemma hexDigit_unescaped:
  assumes "n < 16"
  shows "uriUnescaped (hexDigit n)"
proof (cases "n < 10")
  case True
  then have "unat (0x30 + of_nat n :: 16 word) = 48 + n"
    by (simp add: unat_word_ariths unat_of_nat)
  with True show ?thesis
    by (simp add: hexDigit_def uriUnescaped_def word_le_nat_alt)
next
  case False
  with assms have "unat (0x41 + of_nat (n - 10) :: 16 word) = 65 + (n - 10)"
    by (simp add: unat_word_ariths unat_of_nat)
  with False assms show ?thesis
    by (simp add: hexDigit_def uriUnescaped_def word_le_nat_alt)
qed

text \<open>An encoded text consists of unreserved characters and percent signs.\<close>

lemma percent_safe: "list_all (\<lambda>c. uriUnescaped c \<or> c = 0x25) (percent b)"
proof -
  have "unat b < 256"
    using unsigned_less [of b] by simp
  then have "unat b div 16 < 16" "unat b mod 16 < 16"
    by auto
  then show ?thesis
    by (simp add: percent_def hexDigit_unescaped)
qed

lemma percents_safe: "list_all (\<lambda>c. uriUnescaped c \<or> c = 0x25) (concat (map percent bs))"
  by (induction bs) (simp_all add: percent_safe)

lemma encodeURIComponent_safe:
  "encodeURIComponent s = Inr r \<Longrightarrow> list_all (\<lambda>c. uriUnescaped c \<or> c = 0x25) r"
  by (induction s arbitrary: r rule: encodeURIComponent.induct)
     (auto simp: percents_safe split: if_splits sum.splits list.splits)

lemmas encode_defs =
  js_def uriUnescaped_def isLowSurrogate_def isHighSurrogate_def utf8_def percent_def
  hexDigit_def surrogatePair_def

text \<open>Examples: unreserved characters, two and three octets, a surrogate pair, and
  surrogates that stand alone.\<close>

lemma encodeURIComponent_examples:
  "encodeURIComponent (js ''klus!.mp3'') = Inr (js ''klus!.mp3'')"
  "encodeURIComponent ([0xE9, 0x20AC] @ js '' & '' @ [0xD83C, 0xDFB5]) = Inr (js ''%C3%A9%E2%82%AC%20%26%20%F0%9F%8E%B5'')"
  "encodeURIComponent [0xD83C] = Inl malformed"
  "encodeURIComponent [0xDFB5, 0xD83C] = Inl malformed"
  by (simp_all add: encode_defs)

section \<open>Reading the markup\<close>

text \<open>Code units of characters.\<close>

lemma unat_code_unit: "unat (of_nat (of_char c) :: 16 word) = of_char c"
proof -
  have "of_char c < (256 :: nat)"
    by (rule nat_of_char_less_256)
  then have "of_char c < (65536 :: nat)"
    by linarith
  then show ?thesis
    by (simp add: unat_of_nat)
qed

lemma code_unit_eq: "(of_nat (of_char c) :: 16 word) = of_nat (of_char d) \<longleftrightarrow> c = d"
proof
  assume "(of_nat (of_char c) :: 16 word) = of_nat (of_char d)"
  then have "unat (of_nat (of_char c) :: 16 word) = unat (of_nat (of_char d) :: 16 word)"
    by simp
  then have "(of_char c :: nat) = of_char d"
    by (simp only: unat_code_unit)
  then show "c = d"
    by simp
qed simp

lemma lt_code: "(0x3C :: 16 word) = of_nat (of_char CHR ''<'')"
  and b_code: "(0x62 :: 16 word) = of_nat (of_char CHR ''b'')"
  by simp_all

lemma js_Cons: "js (c # s) = of_nat (of_char c) # js s"
  by (simp add: js_def)

lemma js_append: "js (s @ t) = js s @ js t"
  by (simp add: js_def)

text \<open>Where no button starts, the scanner moves on.\<close>

lemma button_onclick_head: "\<exists>t. button_onclick = 0x3C # 0x62 # t"
  by (simp add: button_onclick_def js_def)

lemma not_button_other:
  assumes "c \<noteq> 0x3C"
  shows "\<not> prefix button_onclick (c # cs)"
proof -
  from button_onclick_head obtain t where "button_onclick = 0x3C # 0x62 # t"
    by blast
  with assms show ?thesis
    by (metis Cons_prefix_Cons)
qed

lemma not_button_second:
  assumes "d \<noteq> 0x62"
  shows "\<not> prefix button_onclick (c # d # cs)"
proof -
  from button_onclick_head obtain t where "button_onclick = 0x3C # 0x62 # t"
    by blast
  with assms show ?thesis
    by (metis Cons_prefix_Cons)
qed

lemma skip_char: "c \<noteq> 0x3C \<Longrightarrow> onclick_values (c # R) = onclick_values R"
  by (simp add: onclick_values.simps(2) not_button_other)

lemma skip_free: "0x3C \<notin> set xs \<Longrightarrow> onclick_values (xs @ R) = onclick_values R"
  by (induction xs) (simp_all add: skip_char)

lemma skip_js: "no_button_start s \<Longrightarrow> onclick_values (js s @ R) = onclick_values R"
proof (induction s rule: no_button_start.induct)
  case 1
  then show ?case by (simp add: js_def)
next
  case (2 c)
  then have "(of_nat (of_char c) :: 16 word) \<noteq> 0x3C"
    unfolding lt_code code_unit_eq by simp
  then show ?case
    by (simp add: js_Cons skip_char) (simp add: js_def)
next
  case (3 c d s)
  have "\<not> prefix button_onclick (of_nat (of_char c) # of_nat (of_char d) # js s @ R)"
  proof (cases "c = CHR ''<''")
    case True
    with 3 have "d \<noteq> CHR ''b''"
      by simp
    then have "(of_nat (of_char d) :: 16 word) \<noteq> 0x62"
      unfolding b_code code_unit_eq .
    then show ?thesis
      by (rule not_button_second)
  next
    case False
    then have "(of_nat (of_char c) :: 16 word) \<noteq> 0x3C"
      unfolding lt_code code_unit_eq .
    then show ?thesis
      by (rule not_button_other)
  qed
  moreover from 3 have "onclick_values (js (d # s) @ R) = onclick_values R"
    by simp
  ultimately show ?case
    by (simp add: js_Cons onclick_values.simps(2))
qed

lemma skip_js_end: "no_button_start s \<Longrightarrow> onclick_values (js s) = []"
  using skip_js [of s "[]"] by simp

lemma skip_js2: "no_button_start (s @ t) \<Longrightarrow> onclick_values (js s @ js t @ R) = onclick_values R"
  using skip_js [of "s @ t" R] by (simp add: js_append)

text \<open>At a button, the scanner takes the attribute up to the next quotation mark and goes
  on from that mark.\<close>

lemma match_button:
  "onclick_values (js ''<button onclick=\"'' @ R) = attribute_value R # onclick_values (after_attribute R)"
proof -
  from button_onclick_head obtain c cs where split: "button_onclick = c # cs"
    by blast
  have eq: "button_onclick @ R = c # (cs @ R)"
    by (simp add: split)
  have "onclick_values (button_onclick @ R) =
      (if prefix button_onclick (button_onclick @ R)
       then attribute_value (drop (length button_onclick) (button_onclick @ R)) #
            onclick_values (after_attribute (drop (length button_onclick) (button_onclick @ R)))
       else onclick_values (cs @ R))"
    unfolding eq by (rule onclick_values.simps(2))
  then have "onclick_values (button_onclick @ R) = attribute_value R # onclick_values (after_attribute R)"
    by simp
  then show ?thesis
    by (simp only: button_onclick_def)
qed

lemma quote_free_js:
  assumes "CHR 0x22 \<notin> set s"
  shows "0x22 \<notin> set (js s)"
proof
  assume "0x22 \<in> set (js s)"
  then obtain c where c: "c \<in> set s" "(of_nat (of_char c) :: 16 word) = 0x22"
    by (auto simp: js_def)
  from c(2) have "(of_nat (of_char c) :: 16 word) = of_nat (of_char CHR 0x22)"
    by simp
  then have "c = CHR 0x22"
    by (simp only: code_unit_eq)
  with c(1) assms show False
    by simp
qed

lemma attr_free: "0x22 \<notin> set xs \<Longrightarrow> attribute_value (xs @ R) = xs @ attribute_value R"
  unfolding attribute_value_def by (rule takeWhile_append2) auto

lemma attr_js: "CHR 0x22 \<notin> set s \<Longrightarrow> attribute_value (js s @ R) = js s @ attribute_value R"
  by (rule attr_free) (rule quote_free_js)

lemma attr_char: "c \<noteq> 0x22 \<Longrightarrow> attribute_value (c # R) = c # attribute_value R"
  by (simp add: attribute_value_def)

lemma attr_stop: "attribute_value (js ''\"'' @ R) = []"
  by (simp add: attribute_value_def js_def)

lemma rest_free: "0x22 \<notin> set xs \<Longrightarrow> after_attribute (xs @ R) = after_attribute R"
  unfolding after_attribute_def by (rule dropWhile_append2) auto

lemma rest_js: "CHR 0x22 \<notin> set s \<Longrightarrow> after_attribute (js s @ R) = after_attribute R"
  by (rule rest_free) (rule quote_free_js)

lemma rest_char: "c \<noteq> 0x22 \<Longrightarrow> after_attribute (c # R) = after_attribute R"
  by (simp add: after_attribute_def)

lemma rest_stop: "after_attribute (js ''\"'' @ R) = js ''\"'' @ R"
  by (simp add: after_attribute_def js_def)

text \<open>The two pieces of the template that hold the start and the end of the Close button's
  attribute, and a file name with a quotation mark, cut at these places.\<close>

lemma close_button_pieces:
  "js ''      <button onclick=\"this.closest('' = js ''      '' @ js ''<button onclick=\"'' @ js ''this.closest(''"
  "js '').remove()\" \<newline>'' = js '').remove()'' @ js ''\"'' @ js '' \<newline>''"
  by (simp_all add: js_def)

lemma quoted_name: "js ''a\"b'' = js ''a'' @ js ''\"'' @ js ''b''"
  by (simp add: js_def)

lemmas scan_rules =
  close_button_pieces
  skip_char skip_free skip_js skip_js2 skip_js_end match_button
  attr_free attr_js attr_char attr_stop rest_free rest_js rest_char rest_stop

lemmas onclick_texts =
  onclick_downloadAndShare_def onclick_shareViaEmail_def onclick_copyFileLink_def
  onclick_shareToWhatsApp_def onclick_shareToTwitter_def onclick_call_def

text \<open>
  With a file name, directory and URL that hold neither \<open><\<close> nor a quotation mark, the
  six buttons of the modal carry the five calls of the manager and the Close handler, each
  whole.
\<close>

lemma onclick_values_plain:
  assumes "0x3C \<notin> set filename" "0x22 \<notin> set filename"
      and "0x3C \<notin> set directory" "0x22 \<notin> set directory"
      and "0x3C \<notin> set downloadUrl" "0x22 \<notin> set downloadUrl"
  shows "onclick_values (share_options_html filename directory downloadUrl) =
   [onclick_downloadAndShare filename downloadUrl,
    onclick_shareViaEmail filename downloadUrl,
    onclick_copyFileLink directory filename,
    onclick_shareToWhatsApp filename directory,
    onclick_shareToTwitter filename directory,
    js ''this.closest('' @ [0x27] @ js ''.share-modal'' @ [0x27] @ js '').remove()'']"
  using assms
  by (simp add: share_options_html_def onclick_texts scan_rules)

text \<open>With the file name \<open>a"b\<close> every attribute that holds the name ends inside it.\<close>

lemma onclick_values_quoted:
  assumes "0x3C \<notin> set downloadUrl"
  shows "onclick_values (share_options_html (js ''a\"b'') (js ''sounds'') downloadUrl) =
   [js ''audioShareManager.downloadAndShare('' @ [0x27] @ js ''a'',
    js ''audioShareManager.shareViaEmail('' @ [0x27] @ js ''a'',
    js ''audioShareManager.copyFileLink('' @ [0x27] @ js ''sounds'' @ [0x27] @ js '', '' @ [0x27] @ js ''a'',
    js ''audioShareManager.shareToWhatsApp('' @ [0x27] @ js ''a'',
    js ''audioShareManager.shareToTwitter('' @ [0x27] @ js ''a'',
    js ''this.closest('' @ [0x27] @ js ''.share-modal'' @ [0x27] @ js '').remove()'']"
  using assms
  by (simp add: share_options_html_def onclick_texts quoted_name scan_rules) (simp add: js_def)

section \<open>The share resolver\<close>

lemma fetchAudioFile_failed:
  assumes "fetch_failed (net_fetch p (directory @ js ''/'' @ filename @ js ''.mp3''))"
  shows "\<exists>e. fetchAudioFile p directory filename s =
           Throw e (emit (Fetch (directory @ js ''/'' @ filename @ js ''.mp3'')) s)
         \<and> err_message e = failure_reason (net_fetch p (directory @ js ''/'' @ filename @ js ''.mp3''))"
  using assms
  by (cases "net_fetch p (directory @ js ''/'' @ filename @ js ''.mp3'')")
     (simp_all add: fetchAudioFile_def fetch_failed_def failure_reason_def Let_def)

text \<open>
  C1. When the fetch of \<open>{directory}/{filename}.mp3\<close> fails (rejected by the network
  or answered with a status that is not OK), \<open>shareSound\<close> returns after exactly one
  alert, whose text contains the file name and the reason of the failure; it calls
  neither \<open>navigator.canShare\<close> nor \<open>navigator.share\<close>, and it leaves the
  document and the store of object URLs as they were: no modal is shown.
\<close>

theorem shareSound_fetch_failure:
  assumes "fetch_failed (net_fetch p (directory @ js ''/'' @ filename @ js ''.mp3''))"
  shows "\<exists>text s'. shareSound p filename directory s = Return () s'
           \<and> alerts (new_events s s') = [text]
           \<and> sublist filename text
           \<and> sublist (failure_reason (net_fetch p (directory @ js ''/'' @ filename @ js ''.mp3''))) text
           \<and> shares (new_events s s') = []
           \<and> capability_checks (new_events s s') = []
           \<and> document_body s' = document_body s
           \<and> object_urls s' = object_urls s"
proof -
  let ?url = "directory @ js ''/'' @ filename @ js ''.mp3''"
  from fetchAudioFile_failed [OF assms] obtain e where
    thrown: "fetchAudioFile p directory filename s = Throw e (emit (Fetch ?url) s)" and
    reason: "err_message e = failure_reason (net_fetch p ?url)"
    by blast
  let ?text = "[0x274C] @ js '' Failed to share \"'' @ filename @
       js ''\"\<newline>\<newline>Error: '' @ err_message e"
  let ?s' = "showErrorMessage filename (err_message e)
               (emit (ConsoleError (js ''Share failed:'') e) (emit (Fetch ?url) s))"
  have run: "shareSound p filename directory s = Return () ?s'"
    by (simp add: shareSound_def shareSound_try_def thrown)
  have tr: "trace ?s' = trace s @ [Fetch ?url, ConsoleError (js ''Share failed:'') e, Alert ?text]"
    by (simp add: showErrorMessage_def emit_def)
  have "alerts (new_events s ?s') = [?text]"
    using tr by (simp add: alerts_def)
  moreover have "sublist filename ?text"
    using sublist_mid [of filename "[0x274C] @ js '' Failed to share \"''"] by simp
  moreover have "sublist (failure_reason (net_fetch p ?url)) ?text"
    using sublist_end [of "err_message e"
        "[0x274C] @ js '' Failed to share \"'' @ filename @ js ''\"\<newline>\<newline>Error: ''"] reason
    by simp
  moreover have "shares (new_events s ?s') = []" "capability_checks (new_events s ?s') = []"
    using tr by (simp_all add: shares_def capability_checks_def)
  moreover have "document_body ?s' = document_body s" "object_urls ?s' = object_urls s"
    by (simp_all add: showErrorMessage_def emit_def)
  ultimately show ?thesis
    using run by blast
qed

theorem shareSound_fetch_failure_witness:
  "fetch_failed (net_fetch platform_404 (js ''sounds'' @ js ''/'' @ js ''missing'' @ js ''.mp3''))
   \<and> (\<exists>text s'. shareSound platform_404 (js ''missing'') (js ''sounds'') empty_page = Return () s'
           \<and> alerts (new_events empty_page s') = [text]
           \<and> sublist (js ''missing'') text
           \<and> sublist (js ''Failed to fetch audio file'') text
           \<and> shares (new_events empty_page s') = []
           \<and> capability_checks (new_events empty_page s') = []
           \<and> document_body s' = []
           \<and> object_urls s' = [])"
proof -
  have failed: "fetch_failed (net_fetch platform_404 (js ''sounds'' @ js ''/'' @ js ''missing'' @ js ''.mp3''))"
    by (simp add: platform_404_def fetch_failed_def)
  have reason: "failure_reason (net_fetch platform_404 (js ''sounds'' @ js ''/'' @ js ''missing'' @ js ''.mp3''))
      = js ''Failed to fetch audio file''"
    by (simp add: platform_404_def failure_reason_def)
  from shareSound_fetch_failure [OF failed, of empty_page] reason
  have "\<exists>text s'. shareSound platform_404 (js ''missing'') (js ''sounds'') empty_page = Return () s'
           \<and> alerts (new_events empty_page s') = [text]
           \<and> sublist (js ''missing'') text
           \<and> sublist (js ''Failed to fetch audio file'') text
           \<and> shares (new_events empty_page s') = []
           \<and> capability_checks (new_events empty_page s') = []
           \<and> document_body s' = document_body empty_page
           \<and> object_urls s' = object_urls empty_page"
    by simp
  then show ?thesis
    using failed by (simp add: empty_page_def)
qed

lemma fetchAudioFile_fetched:
  assumes "fetched (net_fetch p (directory @ js ''/'' @ filename @ js ''.mp3'')) = Some b"
  shows "fetchAudioFile p directory filename s =
           Return b (emit (Fetch (directory @ js ''/'' @ filename @ js ''.mp3'')) s)"
  using assms
  by (auto simp: fetchAudioFile_def fetched_def Let_def split: fetch_result.splits sum.splits if_splits)

lemma fetchAudioFile_not_fetched:
  assumes "fetched (net_fetch p (directory @ js ''/'' @ filename @ js ''.mp3'')) = None"
  shows "\<exists>e. fetchAudioFile p directory filename s =
           Throw e (emit (Fetch (directory @ js ''/'' @ filename @ js ''.mp3'')) s)"
  using assms
  by (auto simp: fetchAudioFile_def fetched_def Let_def split: fetch_result.splits sum.splits if_splits)

lemma tryNativeFileShare_absent:
  "navigator_share p = None \<Longrightarrow> tryNativeFileShare p filename b s = Return False s"
  by (simp add: tryNativeFileShare_def)

lemma tryNativeFileShare_with_file:
  assumes "navigator_share p = Some share" and "can_share_file p (mp3_file filename b)"
  shows "tryNativeFileShare p filename b s =
           after_share share (file_data filename b) (emit (CanShare (probe_data filename b)) s)"
  using assms
  by (auto simp: tryNativeFileShare_def tryNativeFileShare_try_def can_share_file_def mp3_file_def
        after_share_def await_share_def Let_def split: option.splits)

lemma tryNativeFileShare_text_only:
  assumes "navigator_share p = Some share" and "\<not> can_share_file p (mp3_file filename b)"
  shows "tryNativeFileShare p filename b s =
           after_share share (text_data filename)
             (case navigator_canShare p of
                None \<Rightarrow> s
              | Some canShare \<Rightarrow> emit (CanShare (probe_data filename b)) s)"
  using assms
  by (auto simp: tryNativeFileShare_def tryNativeFileShare_try_def can_share_file_def mp3_file_def
        after_share_def await_share_def Let_def split: option.splits)

lemma shareSound_shared:
  assumes "fetchAudioFile p directory filename s = Return b s1"
      and "tryNativeFileShare p filename b s1 = Return True s2"
  shows "shareSound p filename directory s = Return () s2"
  using assms by (simp add: shareSound_def shareSound_try_def)

lemma shareSound_not_shared:
  assumes "fetchAudioFile p directory filename s = Return b s1"
      and "tryNativeFileShare p filename b s1 = Return False s2"
  shows "shareSound p filename directory s = Return () (showFileShareOptions p filename directory b s2)"
  using assms by (simp add: shareSound_def shareSound_try_def)

lemma trace_showFileShareOptions:
  "trace (showFileShareOptions p filename directory b s) =
     trace s @ [CreateObjectURL (createObjectURL p (minted s)), AppendChild (nodes s)]"
  by (simp add: showFileShareOptions_def Let_def emit_def createModal_def)

text \<open>Where \<open>shareSound\<close> leaves the page after a fetch that succeeded, by the answer of
  the one native share that was tried.\<close>

lemma shareSound_after_share:
  assumes "fetched (net_fetch p (directory @ js ''/'' @ filename @ js ''.mp3'')) = Some b"
      and "tryNativeFileShare p filename b (emit (Fetch (directory @ js ''/'' @ filename @ js ''.mp3'')) s)
             = after_share share d (s\<lparr>trace := trace s @ t\<rparr>)"
  shows "\<exists>s'. shareSound p filename directory s = Return () s'
           \<and> shares (new_events s s') = shares t @ [d]
           \<and> capability_checks (new_events s s') = capability_checks t
           \<and> alerts (new_events s s') = alerts t"
proof (cases "share d")
  case None
  let ?s' = "emit (Share d) (s\<lparr>trace := trace s @ t\<rparr>)"
  have "shareSound p filename directory s = Return () ?s'"
    using shareSound_shared [OF fetchAudioFile_fetched [OF assms(1)]] assms(2) None
    by (simp add: after_share_def)
  moreover have "trace ?s' = trace s @ (t @ [Share d])"
    by (simp add: emit_def)
  ultimately show ?thesis
    by (simp add: shares_def capability_checks_def alerts_def)
next
  case (Some e)
  let ?s2 = "emit (ConsoleLog (js ''Native share failed:'') e) (emit (Share d) (s\<lparr>trace := trace s @ t\<rparr>))"
  let ?s' = "showFileShareOptions p filename directory b ?s2"
  have "shareSound p filename directory s = Return () ?s'"
    using shareSound_not_shared [OF fetchAudioFile_fetched [OF assms(1)]] assms(2) Some
    by (simp add: after_share_def)
  moreover have "trace ?s' = trace s @ (t @ [Share d, ConsoleLog (js ''Native share failed:'') e,
      CreateObjectURL (createObjectURL p (minted ?s2)), AppendChild (nodes ?s2)])"
    by (simp add: trace_showFileShareOptions) (simp add: emit_def)
  ultimately show ?thesis
    by (simp add: shares_def capability_checks_def alerts_def)
qed

text \<open>
  C3. After a fetch that succeeded, on a platform with \<open>navigator.share\<close>:
  when \<open>navigator.canShare\<close> accepts the file, \<open>shareSound\<close> calls
  \<open>navigator.share\<close> once, with a title, a text and exactly one file, named
  \<open>{filename}.mp3\<close>, of type \<open>audio/mpeg\<close> and made of the fetched blob; when
  \<open>navigator.canShare\<close> is missing or refuses the file, it calls \<open>navigator.share\<close>
  once with the title and a text that quotes the file name, and no file.
\<close>

theorem shareSound_native_share:
  assumes "fetched (net_fetch p (directory @ js ''/'' @ filename @ js ''.mp3'')) = Some b"
      and "navigator_share p = Some share"
  shows "(can_share_file p (mp3_file filename b) \<longrightarrow>
            (\<exists>s'. shareSound p filename directory s = Return () s'
               \<and> shares (new_events s s') =
                   [\<lparr>sd_title = Some (js ''Vibeboard Sound: '' @ filename),
                     sd_text = Some (js ''Check out this sound from Vibeboard!''),
                     sd_files = Some [\<lparr>file_bits = [b], file_name = filename @ js ''.mp3'',
                                       file_type = js ''audio/mpeg''\<rparr>]\<rparr>]))
       \<and> (\<not> can_share_file p (mp3_file filename b) \<longrightarrow>
            (\<exists>s'. shareSound p filename directory s = Return () s'
               \<and> shares (new_events s s') =
                   [\<lparr>sd_title = Some (js ''Vibeboard Sound: '' @ filename),
                     sd_text = Some (js ''Check out this sound from Vibeboard: \"'' @ filename @ js ''\"''),
                     sd_files = None\<rparr>]))"
proof (intro conjI impI)
  let ?url = "directory @ js ''/'' @ filename @ js ''.mp3''"
  assume can: "can_share_file p (mp3_file filename b)"
  have "tryNativeFileShare p filename b (emit (Fetch ?url) s) =
          after_share share (file_data filename b)
            (s\<lparr>trace := trace s @ [Fetch ?url, CanShare (probe_data filename b)]\<rparr>)"
    by (simp add: tryNativeFileShare_with_file [OF assms(2) can]) (simp add: emit_def)
  from shareSound_after_share [OF assms(1) this]
  show "\<exists>s'. shareSound p filename directory s = Return () s'
          \<and> shares (new_events s s') =
              [\<lparr>sd_title = Some (js ''Vibeboard Sound: '' @ filename),
                sd_text = Some (js ''Check out this sound from Vibeboard!''),
                sd_files = Some [\<lparr>file_bits = [b], file_name = filename @ js ''.mp3'',
                                  file_type = js ''audio/mpeg''\<rparr>]\<rparr>]"
    by (auto simp: shares_def mp3_file_def)
next
  let ?url = "directory @ js ''/'' @ filename @ js ''.mp3''"
  assume cannot: "\<not> can_share_file p (mp3_file filename b)"
  have "\<exists>t. shares t = [] \<and> tryNativeFileShare p filename b (emit (Fetch ?url) s) =
          after_share share (text_data filename) (s\<lparr>trace := trace s @ t\<rparr>)"
  proof (cases "navigator_canShare p")
    case None
    have "tryNativeFileShare p filename b (emit (Fetch ?url) s) =
            after_share share (text_data filename) (s\<lparr>trace := trace s @ [Fetch ?url]\<rparr>)"
      by (simp add: tryNativeFileShare_text_only [OF assms(2) cannot] None) (simp add: emit_def)
    moreover have "shares [Fetch ?url] = []"
      by (simp add: shares_def)
    ultimately show ?thesis by blast
  next
    case (Some canShare)
    have "tryNativeFileShare p filename b (emit (Fetch ?url) s) =
            after_share share (text_data filename)
              (s\<lparr>trace := trace s @ [Fetch ?url, CanShare (probe_data filename b)]\<rparr>)"
      by (simp add: tryNativeFileShare_text_only [OF assms(2) cannot] Some) (simp add: emit_def)
    moreover have "shares [Fetch ?url, CanShare (probe_data filename b)] = []"
      by (simp add: shares_def)
    ultimately show ?thesis by blast
  qed
  then obtain t where t: "shares t = []" and
    run: "tryNativeFileShare p filename b (emit (Fetch ?url) s) =
            after_share share (text_data filename) (s\<lparr>trace := trace s @ t\<rparr>)"
    by blast
  from shareSound_after_share [OF assms(1) run] t
  show "\<exists>s'. shareSound p filename directory s = Return () s'
          \<and> shares (new_events s s') =
              [\<lparr>sd_title = Some (js ''Vibeboard Sound: '' @ filename),
                sd_text = Some (js ''Check out this sound from Vibeboard: \"'' @ filename @ js ''\"''),
                sd_files = None\<rparr>]"
    by auto
qed

theorem shareSound_native_share_witness:
  "fetched (net_fetch platform_files (js ''sounds'' @ js ''/'' @ js ''gehaald'' @ js ''.mp3'')) = Some mp3
   \<and> navigator_share platform_files = Some (\<lambda>d. None)
   \<and> can_share_file platform_files (mp3_file (js ''gehaald'') mp3)
   \<and> (\<exists>s'. shareSound platform_files (js ''gehaald'') (js ''sounds'') empty_page = Return () s'
          \<and> shares (new_events empty_page s') =
              [\<lparr>sd_title = Some (js ''Vibeboard Sound: '' @ js ''gehaald''),
                sd_text = Some (js ''Check out this sound from Vibeboard!''),
                sd_files = Some [\<lparr>file_bits = [mp3], file_name = js ''gehaald'' @ js ''.mp3'',
                                  file_type = js ''audio/mpeg''\<rparr>]\<rparr>])
   \<and> fetched (net_fetch platform_no_files (js ''sounds'' @ js ''/'' @ js ''gehaald'' @ js ''.mp3'')) = Some mp3
   \<and> navigator_share platform_no_files = Some (\<lambda>d. None)
   \<and> \<not> can_share_file platform_no_files (mp3_file (js ''gehaald'') mp3)
   \<and> (\<exists>s'. shareSound platform_no_files (js ''gehaald'') (js ''sounds'') empty_page = Return () s'
          \<and> shares (new_events empty_page s') =
              [\<lparr>sd_title = Some (js ''Vibeboard Sound: '' @ js ''gehaald''),
                sd_text = Some (js ''Check out this sound from Vibeboard: \"'' @ js ''gehaald'' @ js ''\"''),
                sd_files = None\<rparr>])"
proof -
  have f1: "fetched (net_fetch platform_files (js ''sounds'' @ js ''/'' @ js ''gehaald'' @ js ''.mp3'')) = Some mp3"
    by (simp add: sample_platforms fetched_def)
  have n1: "navigator_share platform_files = Some (\<lambda>d. None)"
    by (simp add: sample_platforms)
  have c1: "can_share_file platform_files (mp3_file (js ''gehaald'') mp3)"
    by (simp add: sample_platforms can_share_file_def)
  have f2: "fetched (net_fetch platform_no_files (js ''sounds'' @ js ''/'' @ js ''gehaald'' @ js ''.mp3'')) = Some mp3"
    by (simp add: sample_platforms fetched_def)
  have n2: "navigator_share platform_no_files = Some (\<lambda>d. None)"
    by (simp add: sample_platforms)
  have c2: "\<not> can_share_file platform_no_files (mp3_file (js ''gehaald'') mp3)"
    by (simp add: sample_platforms can_share_file_def)
  from shareSound_native_share [OF f1 n1, of empty_page] c1
    shareSound_native_share [OF f2 n2, of empty_page] c2
  show ?thesis
    using f1 n1 f2 n2 by blast
qed

text \<open>\<open>tryNativeFileShare\<close> in one equation: at most one capability check, then at most
  one share, and a rejection is logged, not thrown.\<close>

lemma tryNativeFileShare_eq:
  "tryNativeFileShare p filename b s =
     (case navigator_share p of
        None \<Rightarrow> Return False s
      | Some share \<Rightarrow>
          after_share share
            (if can_share_file p (mp3_file filename b) then file_data filename b else text_data filename)
            (case navigator_canShare p of
               None \<Rightarrow> s
             | Some canShare \<Rightarrow> emit (CanShare (probe_data filename b)) s))"
proof (cases "navigator_share p")
  case None
  then show ?thesis by (simp add: tryNativeFileShare_absent)
next
  case (Some share)
  show ?thesis
  proof (cases "can_share_file p (mp3_file filename b)")
    case True
    then obtain canShare where "navigator_canShare p = Some canShare"
      by (auto simp: can_share_file_def split: option.splits)
    with True Some show ?thesis
      by (simp add: tryNativeFileShare_with_file)
  next
    case False
    with Some show ?thesis
      by (simp add: tryNativeFileShare_text_only)
  qed
qed

lemma after_share_eq:
  "after_share share d s =
     Return (share d = None)
       (s\<lparr>trace := trace s @
            Share d # (case share d of None \<Rightarrow> [] | Some e \<Rightarrow> [ConsoleLog (js ''Native share failed:'') e])\<rparr>)"
  by (cases "share d") (simp_all add: after_share_def emit_def)

text \<open>What \<open>tryNativeFileShare\<close> adds to the trace: no alert; and it touches nothing
  else of the page.\<close>

lemma tryNativeFileShare_trace:
  "\<exists>shared t. tryNativeFileShare p filename b s = Return shared (s\<lparr>trace := trace s @ t\<rparr>)
     \<and> alerts t = []
     \<and> (shared \<longleftrightarrow> (\<exists>share d. navigator_share p = Some share \<and> shares t = [d] \<and> share d = None))
     \<and> (\<not> shared \<longrightarrow> navigator_share p = None \<or>
           (\<exists>share d. navigator_share p = Some share \<and> share d \<noteq> None))"
proof (cases "navigator_share p")
  case None
  have "tryNativeFileShare p filename b s = Return False (s\<lparr>trace := trace s @ []\<rparr>)"
    using None by (simp add: tryNativeFileShare_absent)
  moreover have "alerts [] = []"
    by (simp add: alerts_def)
  ultimately show ?thesis
    by (intro exI [of _ False] exI [of _ "[]"]) (simp add: None)
next
  case (Some share)
  define d where "d = (if can_share_file p (mp3_file filename b) then file_data filename b else text_data filename)"
  define t0 where "t0 = (case navigator_canShare p of None \<Rightarrow> [] | Some canShare \<Rightarrow> [CanShare (probe_data filename b)])"
  define t where "t = t0 @ Share d # (case share d of None \<Rightarrow> [] | Some e \<Rightarrow> [ConsoleLog (js ''Native share failed:'') e])"
  have pre: "(case navigator_canShare p of None \<Rightarrow> s | Some canShare \<Rightarrow> emit (CanShare (probe_data filename b)) s)
      = s\<lparr>trace := trace s @ t0\<rparr>"
    by (simp add: t0_def emit_def split: option.splits)
  have run: "tryNativeFileShare p filename b s = Return (share d = None) (s\<lparr>trace := trace s @ t\<rparr>)"
    unfolding tryNativeFileShare_eq
    by (simp add: Some pre after_share_eq d_def [symmetric] t_def)
  have al: "alerts t = []"
    by (auto simp: t_def t0_def alerts_def split: option.splits)
  have sh: "shares t = [d]"
    by (auto simp: t_def t0_def shares_def split: option.splits)
  show ?thesis
    by (intro exI [of _ "share d = None"] exI [of _ t]) (auto simp: run al sh Some)
qed

lemma document_body_showFileShareOptions:
  "document_body (showFileShareOptions p filename directory b s) =
     document_body s @
     [\<lparr>node = nodes s, className = js ''share-modal'', cssText = cssText (createModal (nodes s)),
       children = [\<lparr>content_cssText = content_cssText createModalContent,
                    innerHTML = share_options_html filename directory (createObjectURL p (minted s))\<rparr>],
       click_listeners = [RevokeAndRemove (createObjectURL p (minted s))]\<rparr>]"
  by (simp add: showFileShareOptions_def Let_def emit_def createModal_def createModalContent_def)

lemma object_urls_showFileShareOptions:
  "object_urls (showFileShareOptions p filename directory b s) =
     object_urls s @ [(createObjectURL p (minted s), b)]"
  by (simp add: showFileShareOptions_def Let_def emit_def)

text \<open>When the one share that \<open>tryNativeFileShare\<close> would make is rejected, or there is
  no \<open>navigator.share\<close>, it returns \<open>false\<close> and raises no alert.\<close>

lemma tryNativeFileShare_rejected:
  assumes "\<forall>share. navigator_share p = Some share \<longrightarrow>
             share (if can_share_file p (mp3_file filename b) then file_data filename b
                    else text_data filename) \<noteq> None"
  shows "\<exists>t. tryNativeFileShare p filename b s = Return False (s\<lparr>trace := trace s @ t\<rparr>) \<and> alerts t = []"
proof (cases "navigator_share p")
  case None
  have "tryNativeFileShare p filename b s = Return False (s\<lparr>trace := trace s @ []\<rparr>)"
    using None by (simp add: tryNativeFileShare_absent)
  moreover have "alerts [] = []"
    by (simp add: alerts_def)
  ultimately show ?thesis
    by blast
next
  case (Some share)
  define d where "d = (if can_share_file p (mp3_file filename b) then file_data filename b else text_data filename)"
  define t0 where "t0 = (case navigator_canShare p of None \<Rightarrow> [] | Some canShare \<Rightarrow> [CanShare (probe_data filename b)])"
  define t where "t = t0 @ Share d # (case share d of None \<Rightarrow> [] | Some e \<Rightarrow> [ConsoleLog (js ''Native share failed:'') e])"
  from assms Some have rejected: "share d \<noteq> None"
    by (simp add: d_def)
  have pre: "(case navigator_canShare p of None \<Rightarrow> s | Some canShare \<Rightarrow> emit (CanShare (probe_data filename b)) s)
      = s\<lparr>trace := trace s @ t0\<rparr>"
    by (simp add: t0_def emit_def split: option.splits)
  have "tryNativeFileShare p filename b s = Return (share d = None) (s\<lparr>trace := trace s @ t\<rparr>)"
    unfolding tryNativeFileShare_eq
    by (simp add: Some pre after_share_eq d_def [symmetric] t_def)
  with rejected have run: "tryNativeFileShare p filename b s = Return False (s\<lparr>trace := trace s @ t\<rparr>)"
    by simp
  have "alerts t = []"
    by (auto simp: t_def t0_def alerts_def split: option.splits)
  with run show ?thesis
    by blast
qed

text \<open>
  The demotion, for every file name and directory: after a fetch that succeeded, when
  \<open>navigator.share\<close> is missing or rejects the share that is made, \<open>shareSound\<close>
  returns without any alert and has appended one modal to the document, over a new object
  URL of the fetched blob; the markup of the modal is the template of
  \<open>showFileShareOptions\<close>, filled in with the file name, the directory and that URL.
\<close>

lemma shareSound_shows_modal:
  assumes "fetched (net_fetch p (directory @ js ''/'' @ filename @ js ''.mp3'')) = Some b"
      and "\<forall>share. navigator_share p = Some share \<longrightarrow>
             share (if can_share_file p (mp3_file filename b) then file_data filename b
                    else text_data filename) \<noteq> None"
  shows "\<exists>s' modal c.
           shareSound p filename directory s = Return () s'
         \<and> alerts (new_events s s') = []
         \<and> document_body s' = document_body s @ [modal]
         \<and> className modal = js ''share-modal''
         \<and> children modal = [c]
         \<and> innerHTML c = share_options_html filename directory (createObjectURL p (minted s))
         \<and> object_urls s' = object_urls s @ [(createObjectURL p (minted s), b)]"
proof -
  let ?url = "directory @ js ''/'' @ filename @ js ''.mp3''"
  let ?s1 = "emit (Fetch ?url) s"
  from tryNativeFileShare_rejected [OF assms(2), of ?s1] obtain t where
    native: "tryNativeFileShare p filename b ?s1 = Return False (?s1\<lparr>trace := trace ?s1 @ t\<rparr>)" and
    quiet: "alerts t = []"
    by blast
  let ?s2 = "?s1\<lparr>trace := trace ?s1 @ t\<rparr>"
  let ?s' = "showFileShareOptions p filename directory b ?s2"
  let ?downloadUrl = "createObjectURL p (minted s)"
  let ?c = "\<lparr>content_cssText = content_cssText createModalContent,
             innerHTML = share_options_html filename directory ?downloadUrl\<rparr>"
  let ?modal = "\<lparr>node = nodes s, className = js ''share-modal'', cssText = cssText (createModal (nodes s)),
       children = [?c], click_listeners = [RevokeAndRemove ?downloadUrl]\<rparr>"
  have run: "shareSound p filename directory s = Return () ?s'"
    using shareSound_not_shared [OF fetchAudioFile_fetched [OF assms(1)] native] .
  have "trace ?s' = trace s @ (Fetch ?url # t @ [CreateObjectURL (createObjectURL p (minted ?s2)), AppendChild (nodes ?s2)])"
    by (simp add: trace_showFileShareOptions) (simp add: emit_def)
  then have al: "alerts (new_events s ?s') = []"
    using quiet by (simp add: alerts_def)
  have body: "document_body ?s' = document_body s @ [?modal]"
    by (simp add: document_body_showFileShareOptions) (simp add: emit_def)
  have urls: "object_urls ?s' = object_urls s @ [(?downloadUrl, b)]"
    by (simp add: object_urls_showFileShareOptions) (simp add: emit_def)
  show ?thesis
    by (rule exI [of _ ?s'], rule exI [of _ ?modal], rule exI [of _ ?c])
       (simp add: run al body urls)
qed

text \<open>
  C4. The modal is not shown with its five actions for every file name.
  \<open>share("a\"b", "sounds")\<close> on a platform without \<open>navigator.share\<close>, where the fetch
  succeeds: \<open>shareSound\<close> returns without any alert and appends the modal, as for every
  name. But \<open>showFileShareOptions\<close> writes the name as it is into the double-quoted
  \<open>onclick\<close> attributes, so each of the five attributes that hold the name ends at the
  quotation mark of the name. What the five buttons carry is the beginning of a call,
  broken off inside a string literal: no handler that runs the action. The Close button,
  whose attribute holds no name, keeps its handler.
\<close>

theorem shareSound_quoted_name:
  "\<exists>s' modal c.
      shareSound platform_plain (js ''a\"b'') (js ''sounds'') empty_page = Return () s'
    \<and> alerts (new_events empty_page s') = []
    \<and> document_body s' = [modal]
    \<and> className modal = js ''share-modal''
    \<and> children modal = [c]
    \<and> onclick_values (innerHTML c) =
        [js ''audioShareManager.downloadAndShare('' @ [0x27] @ js ''a'',
         js ''audioShareManager.shareViaEmail('' @ [0x27] @ js ''a'',
         js ''audioShareManager.copyFileLink('' @ [0x27] @ js ''sounds'' @ [0x27] @ js '', '' @ [0x27] @ js ''a'',
         js ''audioShareManager.shareToWhatsApp('' @ [0x27] @ js ''a'',
         js ''audioShareManager.shareToTwitter('' @ [0x27] @ js ''a'',
         js ''this.closest('' @ [0x27] @ js ''.share-modal'' @ [0x27] @ js '').remove()'']"
proof -
  have fetch: "fetched (net_fetch platform_plain (js ''sounds'' @ js ''/'' @ js ''a\"b'' @ js ''.mp3'')) = Some mp3"
    by (simp add: sample_platforms fetched_def)
  have absent: "\<forall>share. navigator_share platform_plain = Some share \<longrightarrow>
      share (if can_share_file platform_plain (mp3_file (js ''a\"b'') mp3) then file_data (js ''a\"b'') mp3
             else text_data (js ''a\"b'')) \<noteq> None"
    by (simp add: sample_platforms)
  have url: "0x3C \<notin> set (createObjectURL platform_plain (minted empty_page))"
    by (simp add: sample_platforms empty_page_def js_def)
  from shareSound_shows_modal [OF fetch absent, of empty_page] obtain s' modal c where
    run: "shareSound platform_plain (js ''a\"b'') (js ''sounds'') empty_page = Return () s'" and
    quiet: "alerts (new_events empty_page s') = []" and
    body: "document_body s' = document_body empty_page @ [modal]" and
    modal: "className modal = js ''share-modal''" "children modal = [c]" and
    html: "innerHTML c = share_options_html (js ''a\"b'') (js ''sounds'')
             (createObjectURL platform_plain (minted empty_page))"
    by blast
  from body have body': "document_body s' = [modal]"
    by (simp add: empty_page_def)
  note buttons = onclick_values_quoted [OF url]
  show ?thesis
    by (rule exI [of _ s'], rule exI [of _ modal], rule exI [of _ c])
       (simp only: run quiet body' modal html buttons simp_thms)
qed

text \<open>
  C5. \<open>shareSound\<close> never throws. When no blob was fetched it ends with exactly one
  alert and neither shares nor shows the modal; when a blob was fetched it ends without
  any alert, either after a native share that was accepted, or with the modal appended to
  the document.
\<close>

theorem shareSound_never_throws:
  "\<exists>s'. shareSound p filename directory s = Return () s'
     \<and> (case fetched (net_fetch p (directory @ js ''/'' @ filename @ js ''.mp3'')) of
          None \<Rightarrow>
            length (alerts (new_events s s')) = 1
            \<and> shares (new_events s s') = []
            \<and> document_body s' = document_body s
        | Some b \<Rightarrow>
            alerts (new_events s s') = []
            \<and> ((\<exists>share d. navigator_share p = Some share
                    \<and> shares (new_events s s') = [d] \<and> share d = None
                    \<and> document_body s' = document_body s)
               \<or> (\<exists>modal. document_body s' = document_body s @ [modal]
                    \<and> className modal = js ''share-modal'')))"
proof (cases "fetched (net_fetch p (directory @ js ''/'' @ filename @ js ''.mp3''))")
  case None
  let ?url = "directory @ js ''/'' @ filename @ js ''.mp3''"
  from fetchAudioFile_not_fetched [OF None] obtain e where
    thrown: "fetchAudioFile p directory filename s = Throw e (emit (Fetch ?url) s)"
    by blast
  let ?s' = "showErrorMessage filename (err_message e)
               (emit (ConsoleError (js ''Share failed:'') e) (emit (Fetch ?url) s))"
  have run: "shareSound p filename directory s = Return () ?s'"
    by (simp add: shareSound_def shareSound_try_def thrown)
  have "\<exists>text. trace ?s' = trace s @ [Fetch ?url, ConsoleError (js ''Share failed:'') e, Alert text]"
    by (simp add: showErrorMessage_def emit_def)
  then have "length (alerts (new_events s ?s')) = 1" "shares (new_events s ?s') = []"
    by (auto simp: alerts_def shares_def)
  moreover have "document_body ?s' = document_body s"
    by (simp add: showErrorMessage_def emit_def)
  ultimately show ?thesis
    using run None by simp
next
  case (Some b)
  let ?url = "directory @ js ''/'' @ filename @ js ''.mp3''"
  let ?s1 = "emit (Fetch ?url) s"
  obtain shared t where
    native: "tryNativeFileShare p filename b ?s1 = Return shared (?s1\<lparr>trace := trace ?s1 @ t\<rparr>)" and
    quiet: "alerts t = []" and
    shared: "shared \<longleftrightarrow> (\<exists>share d. navigator_share p = Some share \<and> shares t = [d] \<and> share d = None)"
    using tryNativeFileShare_trace [of p filename b ?s1] by blast
  let ?s2 = "?s1\<lparr>trace := trace ?s1 @ t\<rparr>"
  have tr2: "trace ?s2 = trace s @ (Fetch ?url # t)"
    by (simp add: emit_def)
  show ?thesis
  proof (cases shared)
    case True
    have run: "shareSound p filename directory s = Return () ?s2"
      using shareSound_shared [OF fetchAudioFile_fetched [OF Some]] native True by simp
    from True shared obtain share d where
      "navigator_share p = Some share" "shares t = [d]" "share d = None"
      by blast
    moreover have "shares (new_events s ?s2) = shares t" "alerts (new_events s ?s2) = alerts t"
      using tr2 by (simp_all add: shares_def alerts_def)
    moreover have "document_body ?s2 = document_body s"
      by (simp add: emit_def)
    ultimately show ?thesis
      using run Some quiet by auto
  next
    case False
    let ?s' = "showFileShareOptions p filename directory b ?s2"
    have run: "shareSound p filename directory s = Return () ?s'"
      using shareSound_not_shared [OF fetchAudioFile_fetched [OF Some]] native False by simp
    have "trace ?s' = trace s @ (Fetch ?url # t @ [CreateObjectURL (createObjectURL p (minted ?s2)), AppendChild (nodes ?s2)])"
      by (simp add: trace_showFileShareOptions) (simp add: emit_def)
    then have al: "alerts (new_events s ?s') = []"
      using quiet by (simp add: alerts_def)
    have "\<exists>modal. document_body ?s' = document_body s @ [modal] \<and> className modal = js ''share-modal''"
      by (simp add: document_body_showFileShareOptions) (simp add: emit_def)
    with run Some al show ?thesis
      by auto
  qed
qed

theorem shareSound_never_throws_witness:
  "fetched (net_fetch platform_404 (js ''sounds'' @ js ''/'' @ js ''missing'' @ js ''.mp3'')) = None
   \<and> (\<exists>s'. shareSound platform_404 (js ''missing'') (js ''sounds'') empty_page = Return () s'
          \<and> length (alerts (new_events empty_page s')) = 1
          \<and> shares (new_events empty_page s') = []
          \<and> document_body s' = [])
   \<and> fetched (net_fetch platform_plain (js ''sounds'' @ js ''/'' @ js ''gehaald'' @ js ''.mp3'')) = Some mp3
   \<and> (\<exists>s' modal. shareSound platform_plain (js ''gehaald'') (js ''sounds'') empty_page = Return () s'
          \<and> alerts (new_events empty_page s') = []
          \<and> document_body s' = [modal]
          \<and> className modal = js ''share-modal'')"
proof -
  have missing: "fetched (net_fetch platform_404 (js ''sounds'' @ js ''/'' @ js ''missing'' @ js ''.mp3'')) = None"
    by (simp add: platform_404_def fetched_def)
  have found: "fetched (net_fetch platform_plain (js ''sounds'' @ js ''/'' @ js ''gehaald'' @ js ''.mp3'')) = Some mp3"
    by (simp add: platform_plain_def fetched_def)
  have absent: "navigator_share platform_plain = None"
    by (simp add: platform_plain_def)
  have e: "document_body empty_page = []"
    by (simp add: empty_page_def)
  from shareSound_never_throws [of platform_404 "js ''missing''" "js ''sounds''" empty_page]
  have a: "\<exists>s'. shareSound platform_404 (js ''missing'') (js ''sounds'') empty_page = Return () s'
          \<and> length (alerts (new_events empty_page s')) = 1
          \<and> shares (new_events empty_page s') = []
          \<and> document_body s' = []"
    by (simp add: missing e)
  from shareSound_never_throws [of platform_plain "js ''gehaald''" "js ''sounds''" empty_page]
  have b: "\<exists>s' modal. shareSound platform_plain (js ''gehaald'') (js ''sounds'') empty_page = Return () s'
          \<and> alerts (new_events empty_page s') = []
          \<and> document_body s' = [modal]
          \<and> className modal = js ''share-modal''"
    by (simp add: found absent e)
  from missing a found b show ?thesis
    by blast
qed

section \<open>The clipboard\<close>

text \<open>Where \<open>copyFileLink\<close> stands when it calls \<open>closeModal\<close>: after at most one
  \<open>writeText\<close> and exactly one alert.\<close>

lemma copyFileLink_steps:
  "\<exists>s1. copyFileLink p m directory filename s = Return () (closeModal s1)
     \<and> document_body s1 = document_body s
     \<and> object_urls s1 = object_urls s
     \<and> clipboard s1 =
         (if clipboard_accepts p (fileUrl m directory filename)
          then Some (fileUrl m directory filename) else clipboard s)
     \<and> trace s1 = trace s @
         (case clipboard_writeText p of
            None \<Rightarrow> []
          | Some writeText \<Rightarrow> [ClipboardWriteText (fileUrl m directory filename)]) @
         [Alert (if clipboard_accepts p (fileUrl m directory filename)
                 then [0x2705] @ js '' '' @ js ''File link copied!\<newline>\<newline>\"'' @
                      fileUrl m directory filename @
                      js ''\"\<newline>\<newline>Paste this anywhere to share the audio file.''
                 else [0x274C] @ js '' Failed to share \"'' @ filename @
                      js ''\"\<newline>\<newline>Error: '' @ js ''Could not copy to clipboard'')]"
proof (cases "clipboard_writeText p")
  case None
  then show ?thesis
    by (simp add: copyFileLink_def copyFileLink_try_def clipboard_accepts_def
          showErrorMessage_def emit_def)
       (rule exI, intro conjI, rule refl, simp_all)
next
  case (Some writeText)
  show ?thesis
  proof (cases "writeText (fileUrl m directory filename)")
    case None
    with Some show ?thesis
      by (simp add: copyFileLink_def copyFileLink_try_def clipboard_accepts_def
            showSuccessMessage_def emit_def)
         (rule exI, intro conjI, rule refl, simp_all)
  next
    case (Some e)
    with \<open>clipboard_writeText p = Some writeText\<close> show ?thesis
      by (simp add: copyFileLink_def copyFileLink_try_def clipboard_accepts_def
            showErrorMessage_def emit_def)
         (rule exI, intro conjI, rule refl, simp_all)
  qed
qed

lemma find_share_modal:
  assumes "find (\<lambda>e. className e = js ''share-modal'') (document_body s) = Some modal"
  shows "node modal \<in> node ` set (document_body s)"
  using assms by (auto simp: find_Some_iff)

lemma closeModal_found:
  assumes "find (\<lambda>e. className e = js ''share-modal'') (document_body s) = Some modal"
  shows "closeModal s =
           s\<lparr>document_body := filter (\<lambda>e. node e \<noteq> node modal) (document_body s),
             trace := trace s @ [Remove (node modal)]\<rparr>"
  using assms find_share_modal [OF assms]
  by (simp add: closeModal_def element_remove_def emit_def)

lemma closeModal_object_urls [simp]: "object_urls (closeModal s) = object_urls s"
  by (simp add: closeModal_def element_remove_def emit_def split: option.splits)

lemma trace_closeModal:
  "\<exists>t. trace (closeModal s) = trace s @ t \<and> window_opens t = [] \<and> alerts t = []"
  by (auto simp: closeModal_def element_remove_def emit_def window_opens_def alerts_def
        split: option.splits)

text \<open>
  C6. \<open>copyFileLink\<close> of the manager that was constructed on the page always returns;
  where \<open>navigator.clipboard\<close> exists it calls \<open>writeText\<close> exactly once, with
  \<open>{origin}/{directory}/{filename}.mp3\<close>, and once the write is accepted that URL is
  the text of the clipboard. It passes no other text to the clipboard.
\<close>

theorem copyFileLink_writes_file_url:
  "\<exists>s'. copyFileLink p (AudioShareManager p) directory filename s = Return () s'
     \<and> clipboard_writes (new_events s s') =
         (case clipboard_writeText p of
            None \<Rightarrow> []
          | Some writeText \<Rightarrow>
              [location_origin p @ js ''/'' @ directory @ js ''/'' @ filename @ js ''.mp3''])
     \<and> clipboard s' =
         (if clipboard_accepts p (location_origin p @ js ''/'' @ directory @ js ''/'' @ filename @ js ''.mp3'')
          then Some (location_origin p @ js ''/'' @ directory @ js ''/'' @ filename @ js ''.mp3'')
          else clipboard s)"
proof -
  let ?m = "AudioShareManager p"
  have url: "fileUrl ?m directory filename =
      location_origin p @ js ''/'' @ directory @ js ''/'' @ filename @ js ''.mp3''"
    by (simp add: fileUrl_def AudioShareManager_def)
  obtain s1 where
    run: "copyFileLink p ?m directory filename s = Return () (closeModal s1)" and
    clip: "clipboard s1 =
         (if clipboard_accepts p (fileUrl ?m directory filename)
          then Some (fileUrl ?m directory filename) else clipboard s)" and
    tr: "trace s1 = trace s @
         (case clipboard_writeText p of
            None \<Rightarrow> []
          | Some writeText \<Rightarrow> [ClipboardWriteText (fileUrl ?m directory filename)]) @
         [Alert (if clipboard_accepts p (fileUrl ?m directory filename)
                 then [0x2705] @ js '' '' @ js ''File link copied!\<newline>\<newline>\"'' @
                      fileUrl ?m directory filename @
                      js ''\"\<newline>\<newline>Paste this anywhere to share the audio file.''
                 else [0x274C] @ js '' Failed to share \"'' @ filename @
                      js ''\"\<newline>\<newline>Error: '' @ js ''Could not copy to clipboard'')]"
    using copyFileLink_steps [of p ?m directory filename s] by blast
  have "\<exists>t. trace (closeModal s1) = trace s1 @ t \<and> clipboard_writes t = []"
    by (auto simp: closeModal_def element_remove_def emit_def clipboard_writes_def split: option.splits)
  then obtain t where t: "trace (closeModal s1) = trace s1 @ t" "clipboard_writes t = []"
    by blast
  have "clipboard_writes (new_events s (closeModal s1)) =
         (case clipboard_writeText p of
            None \<Rightarrow> []
          | Some writeText \<Rightarrow> [fileUrl ?m directory filename])"
    using t by (simp add: tr clipboard_writes_def split: option.splits)
  moreover have "clipboard (closeModal s1) = clipboard s1"
    by (simp add: closeModal_def element_remove_def emit_def split: option.splits)
  ultimately show ?thesis
    using run clip by (simp add: url cong: option.case_cong)
qed

theorem copyFileLink_writes_file_url_witness:
  "\<exists>s'. copyFileLink platform_clipboard (AudioShareManager platform_clipboard)
            (js ''soundz'') (js ''klus!'') modal_page = Return () s'
     \<and> clipboard_writes (new_events modal_page s') = [js ''https://vibeboard.example/soundz/klus!.mp3'']
     \<and> clipboard s' = Some (js ''https://vibeboard.example/soundz/klus!.mp3'')"
proof -
  have url: "location_origin platform_clipboard @ js ''/'' @ js ''soundz'' @ js ''/'' @ js ''klus!'' @ js ''.mp3''
      = js ''https://vibeboard.example/soundz/klus!.mp3''"
    by (simp add: platform_clipboard_def platform_plain_def js_def)
  have accepts: "clipboard_accepts platform_clipboard u" for u
    by (simp add: clipboard_accepts_def platform_clipboard_def)
  have present: "clipboard_writeText platform_clipboard = Some (\<lambda>url. None)"
    by (simp add: platform_clipboard_def)
  from copyFileLink_writes_file_url [of platform_clipboard "js ''soundz''" "js ''klus!''" modal_page]
  show ?thesis
    by (simp add: url accepts present)
qed

text \<open>
  C10. With a modal on the page, \<open>copyFileLink\<close> ends in both cases with one alert
  and then the removal of the modal that \<open>closeModal\<close> finds: the alert of the copied
  link when the clipboard accepted the write, the alert of the clipboard failure when it
  did not.
\<close>

theorem copyFileLink_closes_modal:
  assumes "find (\<lambda>e. className e = js ''share-modal'') (document_body s) = Some modal"
  shows "\<exists>s' writes text.
           copyFileLink p m directory filename s = Return () s'
         \<and> new_events s s' = writes @ [Alert text, Remove (node modal)]
         \<and> alerts writes = []
         \<and> text =
             (if clipboard_accepts p (fileUrl m directory filename)
              then [0x2705] @ js '' File link copied!\<newline>\<newline>\"'' @
                   fileUrl m directory filename @
                   js ''\"\<newline>\<newline>Paste this anywhere to share the audio file.''
              else [0x274C] @ js '' Failed to share \"'' @ filename @
                   js ''\"\<newline>\<newline>Error: Could not copy to clipboard'')
         \<and> document_body s' = filter (\<lambda>e. node e \<noteq> node modal) (document_body s)
         \<and> modal \<notin> set (document_body s')"
proof -
  let ?writes = "case clipboard_writeText p of
            None \<Rightarrow> []
          | Some writeText \<Rightarrow> [ClipboardWriteText (fileUrl m directory filename)]"
  let ?text = "if clipboard_accepts p (fileUrl m directory filename)
                 then [0x2705] @ js '' '' @ js ''File link copied!\<newline>\<newline>\"'' @
                      fileUrl m directory filename @
                      js ''\"\<newline>\<newline>Paste this anywhere to share the audio file.''
                 else [0x274C] @ js '' Failed to share \"'' @ filename @
                      js ''\"\<newline>\<newline>Error: '' @ js ''Could not copy to clipboard''"
  obtain s1 where
    run: "copyFileLink p m directory filename s = Return () (closeModal s1)" and
    body: "document_body s1 = document_body s" and
    tr: "trace s1 = trace s @ ?writes @ [Alert ?text]"
    using copyFileLink_steps [of p m directory filename s] by blast
  from assms body have found: "find (\<lambda>e. className e = js ''share-modal'') (document_body s1) = Some modal"
    by simp
  have closed: "closeModal s1 =
      s1\<lparr>document_body := filter (\<lambda>e. node e \<noteq> node modal) (document_body s1),
         trace := trace s1 @ [Remove (node modal)]\<rparr>"
    by (rule closeModal_found [OF found])
  have "new_events s (closeModal s1) = ?writes @ [Alert ?text, Remove (node modal)]"
    by (simp add: closed tr)
  moreover have "alerts ?writes = []"
    by (simp add: alerts_def split: option.splits)
  moreover have "?text =
             (if clipboard_accepts p (fileUrl m directory filename)
              then [0x2705] @ js '' File link copied!\<newline>\<newline>\"'' @
                   fileUrl m directory filename @
                   js ''\"\<newline>\<newline>Paste this anywhere to share the audio file.''
              else [0x274C] @ js '' Failed to share \"'' @ filename @
                   js ''\"\<newline>\<newline>Error: Could not copy to clipboard'')"
    by (simp add: js_def)
  moreover have "document_body (closeModal s1) = filter (\<lambda>e. node e \<noteq> node modal) (document_body s)"
    by (simp add: closed body)
  moreover from this have "modal \<notin> set (document_body (closeModal s1))"
    by simp
  ultimately show ?thesis
    using run by blast
qed

lemma modal_page_body:
  "\<exists>modal. document_body modal_page = [modal] \<and> className modal = js ''share-modal''
     \<and> click_listeners modal = [RevokeAndRemove (createObjectURL platform_plain 0)]"
  by (simp add: modal_page_def document_body_showFileShareOptions empty_page_def)

theorem copyFileLink_closes_modal_witness:
  "\<exists>modal.
      find (\<lambda>e. className e = js ''share-modal'') (document_body modal_page) = Some modal
    \<and> clipboard_accepts platform_clipboard
         (fileUrl (AudioShareManager platform_clipboard) (js ''sounds'') (js ''gehaald''))
    \<and> (\<exists>s' writes.
           copyFileLink platform_clipboard (AudioShareManager platform_clipboard)
             (js ''sounds'') (js ''gehaald'') modal_page = Return () s'
         \<and> new_events modal_page s' = writes @
             [Alert ([0x2705] @ js '' File link copied!\<newline>\<newline>\"https://vibeboard.example/sounds/gehaald.mp3\"\<newline>\<newline>Paste this anywhere to share the audio file.''),
              Remove (node modal)]
         \<and> document_body s' = [])
    \<and> \<not> clipboard_accepts platform_clipboard_denied
         (fileUrl (AudioShareManager platform_clipboard_denied) (js ''sounds'') (js ''gehaald''))
    \<and> (\<exists>s' writes.
           copyFileLink platform_clipboard_denied (AudioShareManager platform_clipboard_denied)
             (js ''sounds'') (js ''gehaald'') modal_page = Return () s'
         \<and> new_events modal_page s' = writes @
             [Alert ([0x274C] @ js '' Failed to share \"gehaald\"\<newline>\<newline>Error: Could not copy to clipboard''),
              Remove (node modal)]
         \<and> document_body s' = [])"
proof -
  from modal_page_body obtain modal where
    body: "document_body modal_page = [modal]" and cls: "className modal = js ''share-modal''"
    by blast
  have found: "find (\<lambda>e. className e = js ''share-modal'') (document_body modal_page) = Some modal"
    by (simp add: body cls)
  have yes: "clipboard_accepts platform_clipboard
         (fileUrl (AudioShareManager platform_clipboard) (js ''sounds'') (js ''gehaald''))"
    by (simp add: clipboard_accepts_def platform_clipboard_def)
  have no: "\<not> clipboard_accepts platform_clipboard_denied
         (fileUrl (AudioShareManager platform_clipboard_denied) (js ''sounds'') (js ''gehaald''))"
    by (simp add: clipboard_accepts_def platform_clipboard_denied_def)
  have url1: "fileUrl (AudioShareManager platform_clipboard) (js ''sounds'') (js ''gehaald'')
      = js ''https://vibeboard.example/sounds/gehaald.mp3''"
    by (simp add: fileUrl_def AudioShareManager_def platform_clipboard_def platform_plain_def js_def)
  have t1: "[0x2705] @ js '' File link copied!\<newline>\<newline>\"'' @ js ''https://vibeboard.example/sounds/gehaald.mp3'' @
       js ''\"\<newline>\<newline>Paste this anywhere to share the audio file.''
     = [0x2705] @ js '' File link copied!\<newline>\<newline>\"https://vibeboard.example/sounds/gehaald.mp3\"\<newline>\<newline>Paste this anywhere to share the audio file.''"
    by (simp add: js_def)
  have t2: "[0x274C] @ js '' Failed to share \"'' @ js ''gehaald'' @
       js ''\"\<newline>\<newline>Error: Could not copy to clipboard''
     = [0x274C] @ js '' Failed to share \"gehaald\"\<newline>\<newline>Error: Could not copy to clipboard''"
    by (simp add: js_def)
  from copyFileLink_closes_modal [OF found, of platform_clipboard
      "AudioShareManager platform_clipboard" "js ''sounds''" "js ''gehaald''"] yes
  have a: "\<exists>s' writes.
           copyFileLink platform_clipboard (AudioShareManager platform_clipboard)
             (js ''sounds'') (js ''gehaald'') modal_page = Return () s'
         \<and> new_events modal_page s' = writes @
             [Alert ([0x2705] @ js '' File link copied!\<newline>\<newline>\"https://vibeboard.example/sounds/gehaald.mp3\"\<newline>\<newline>Paste this anywhere to share the audio file.''),
              Remove (node modal)]
         \<and> document_body s' = []"
    unfolding url1 t1 by (simp add: body) blast
  from copyFileLink_closes_modal [OF found, of platform_clipboard_denied
      "AudioShareManager platform_clipboard_denied" "js ''sounds''" "js ''gehaald''"] no
  have b: "\<exists>s' writes.
           copyFileLink platform_clipboard_denied (AudioShareManager platform_clipboard_denied)
             (js ''sounds'') (js ''gehaald'') modal_page = Return () s'
         \<and> new_events modal_page s' = writes @
             [Alert ([0x274C] @ js '' Failed to share \"gehaald\"\<newline>\<newline>Error: Could not copy to clipboard''),
              Remove (node modal)]
         \<and> document_body s' = []"
    unfolding t2 by (simp add: body) blast
  from found yes a no b show ?thesis
    by blast
qed

section \<open>The deep links\<close>

lemma opened_shareToWhatsApp:
  "opened s (shareToWhatsApp m filename directory s) =
     (case encodeURIComponent (whatsapp_message m filename directory) of
        Inl e \<Rightarrow> []
      | Inr text \<Rightarrow> [js ''https://wa.me/?text='' @ text])"
proof (cases "encodeURIComponent (whatsapp_message m filename directory)")
  case (Inl e)
  then show ?thesis
    by (simp add: shareToWhatsApp_def opened_def new_events_def window_opens_def)
next
  case (Inr encoded)
  let ?s1 = "emit (WindowOpen (js ''https://wa.me/?text='' @ encoded)) s"
  from trace_closeModal [of ?s1] obtain t where
    "trace (closeModal ?s1) = trace s @ (WindowOpen (js ''https://wa.me/?text='' @ encoded) # t)"
    "window_opens t = []"
    by (auto simp: emit_def)
  then show ?thesis
    by (simp add: shareToWhatsApp_def opened_def Inr window_opens_def)
qed

lemma opened_shareToTwitter:
  "opened s (shareToTwitter m filename directory s) =
     (case encodeURIComponent (twitter_message m filename directory) of
        Inl e \<Rightarrow> []
      | Inr text \<Rightarrow> [js ''https://twitter.com/intent/tweet?text='' @ text])"
proof (cases "encodeURIComponent (twitter_message m filename directory)")
  case (Inl e)
  then show ?thesis
    by (simp add: shareToTwitter_def opened_def new_events_def window_opens_def)
next
  case (Inr encoded)
  let ?s1 = "emit (WindowOpen (js ''https://twitter.com/intent/tweet?text='' @ encoded)) s"
  from trace_closeModal [of ?s1] obtain t where
    "trace (closeModal ?s1) = trace s @ (WindowOpen (js ''https://twitter.com/intent/tweet?text='' @ encoded) # t)"
    "window_opens t = []"
    by (auto simp: emit_def)
  then show ?thesis
    by (simp add: shareToTwitter_def opened_def Inr window_opens_def)
qed

lemma encoded_parts:
  assumes "isWellFormed (baseUrl m)" and "isWellFormed directory" and "isWellFormed filename"
  shows "\<exists>url name. encodeURIComponent (fileUrl m directory filename) = Inr url
           \<and> encodeURIComponent filename = Inr name"
proof -
  have "isWellFormed (fileUrl m directory filename)"
    unfolding fileUrl_def by (intro isWellFormed_append assms isWellFormed_js)
  with assms(3) show ?thesis
    by (auto simp: encodeURIComponent_wellformed)
qed

lemma encoded_whatsapp_message:
  assumes "encodeURIComponent (fileUrl m directory filename) = Inr url"
      and "encodeURIComponent filename = Inr name"
  shows "\<exists>wa. encodeURIComponent (whatsapp_message m filename directory) = Inr wa
           \<and> sublist url wa \<and> sublist name wa"
proof -
  obtain a b c where
    a: "encodeURIComponent [0xD83C, 0xDFB5] = Inr a" and
    b: "encodeURIComponent (js '' Check out this sound: \"'') = Inr b" and
    c: "encodeURIComponent (js ''\"\<newline>\<newline>Listen here: '') = Inr c"
    using isWellFormed_pair isWellFormed_js unfolding encodeURIComponent_wellformed by blast
  have "encodeURIComponent (whatsapp_message m filename directory) = Inr (a @ b @ name @ c @ url)"
    unfolding whatsapp_message_def
    by (intro encodeURIComponent_append_Inr a b c assms)
  moreover have "sublist url (a @ b @ name @ c @ url)"
    using sublist_end [of url "a @ b @ name @ c"] by simp
  moreover have "sublist name (a @ b @ name @ c @ url)"
    using sublist_mid [of name "a @ b" "c @ url"] by simp
  ultimately show ?thesis
    by blast
qed

lemma encoded_twitter_message:
  assumes "encodeURIComponent (fileUrl m directory filename) = Inr url"
      and "encodeURIComponent filename = Inr name"
  shows "\<exists>tw. encodeURIComponent (twitter_message m filename directory) = Inr tw
           \<and> sublist url tw \<and> sublist name tw"
proof -
  obtain a b c where
    a: "encodeURIComponent [0xD83C, 0xDFB5] = Inr a" and
    b: "encodeURIComponent (js '' Check out this awesome sound: \"'') = Inr b" and
    c: "encodeURIComponent (js ''\" '') = Inr c"
    using isWellFormed_pair isWellFormed_js unfolding encodeURIComponent_wellformed by blast
  have "encodeURIComponent (twitter_message m filename directory) = Inr (a @ b @ name @ c @ url)"
    unfolding twitter_message_def
    by (intro encodeURIComponent_append_Inr a b c assms)
  moreover have "sublist url (a @ b @ name @ c @ url)"
    using sublist_end [of url "a @ b @ name @ c"] by simp
  moreover have "sublist name (a @ b @ name @ c @ url)"
    using sublist_mid [of name "a @ b" "c @ url"] by simp
  ultimately show ?thesis
    by blast
qed

text \<open>
  C7. \<open>shareToWhatsApp\<close> opens \<open>https://wa.me/?text=\<close> and \<open>shareToTwitter\<close> opens
  \<open>https://twitter.com/intent/tweet?text=\<close>, each followed by
  \<open>encodeURIComponent\<close> of its message, and nothing else (nothing at all when
  \<open>encodeURIComponent\<close> throws). Both messages contain
  \<open>{baseUrl}/{directory}/{filename}.mp3\<close> and the file name. When the origin, the
  directory and the file name are well-formed strings, both encodings exist, consist of
  unreserved characters and percent signs, and contain the encoded URL and the encoded
  file name.
\<close>

theorem deep_links:
  "opened s (shareToWhatsApp m filename directory s) =
     (case encodeURIComponent (whatsapp_message m filename directory) of
        Inl e \<Rightarrow> []
      | Inr text \<Rightarrow> [js ''https://wa.me/?text='' @ text])
   \<and> opened s (shareToTwitter m filename directory s) =
     (case encodeURIComponent (twitter_message m filename directory) of
        Inl e \<Rightarrow> []
      | Inr text \<Rightarrow> [js ''https://twitter.com/intent/tweet?text='' @ text])
   \<and> sublist (baseUrl m @ js ''/'' @ directory @ js ''/'' @ filename @ js ''.mp3'')
        (whatsapp_message m filename directory)
   \<and> sublist filename (whatsapp_message m filename directory)
   \<and> sublist (baseUrl m @ js ''/'' @ directory @ js ''/'' @ filename @ js ''.mp3'')
        (twitter_message m filename directory)
   \<and> sublist filename (twitter_message m filename directory)
   \<and> (isWellFormed (baseUrl m) \<and> isWellFormed directory \<and> isWellFormed filename \<longrightarrow>
        (\<exists>url name wa tw.
            encodeURIComponent (baseUrl m @ js ''/'' @ directory @ js ''/'' @ filename @ js ''.mp3'') = Inr url
          \<and> encodeURIComponent filename = Inr name
          \<and> encodeURIComponent (whatsapp_message m filename directory) = Inr wa
          \<and> encodeURIComponent (twitter_message m filename directory) = Inr tw
          \<and> sublist url wa \<and> sublist name wa
          \<and> sublist url tw \<and> sublist name tw
          \<and> list_all (\<lambda>c. uriUnescaped c \<or> c = 0x25) wa
          \<and> list_all (\<lambda>c. uriUnescaped c \<or> c = 0x25) tw))"
proof (intro conjI impI)
  show "sublist (baseUrl m @ js ''/'' @ directory @ js ''/'' @ filename @ js ''.mp3'')
        (whatsapp_message m filename directory)"
    unfolding whatsapp_message_def fileUrl_def
    by ((rule sublist_end | rule sublist_skip)+)
  show "sublist filename (whatsapp_message m filename directory)"
    unfolding whatsapp_message_def fileUrl_def
    using sublist_mid [of filename "[0xD83C, 0xDFB5] @ js '' Check out this sound: \"''"] by simp
  show "sublist (baseUrl m @ js ''/'' @ directory @ js ''/'' @ filename @ js ''.mp3'')
        (twitter_message m filename directory)"
    unfolding twitter_message_def fileUrl_def
    by ((rule sublist_end | rule sublist_skip)+)
  show "sublist filename (twitter_message m filename directory)"
    unfolding twitter_message_def fileUrl_def
    using sublist_mid [of filename "[0xD83C, 0xDFB5] @ js '' Check out this awesome sound: \"''"] by simp
next
  assume wf: "isWellFormed (baseUrl m) \<and> isWellFormed directory \<and> isWellFormed filename"
  then obtain url name where
    url: "encodeURIComponent (fileUrl m directory filename) = Inr url" and
    name: "encodeURIComponent filename = Inr name"
    using encoded_parts [of m directory filename] by blast
  from encoded_whatsapp_message [OF url name] obtain wa where
    wa: "encodeURIComponent (whatsapp_message m filename directory) = Inr wa"
      "sublist url wa" "sublist name wa"
    by blast
  from encoded_twitter_message [OF url name] obtain tw where
    tw: "encodeURIComponent (twitter_message m filename directory) = Inr tw"
      "sublist url tw" "sublist name tw"
    by blast
  from url have "encodeURIComponent (baseUrl m @ js ''/'' @ directory @ js ''/'' @ filename @ js ''.mp3'') = Inr url"
    by (simp add: fileUrl_def)
  with name wa tw encodeURIComponent_safe [OF wa(1)] encodeURIComponent_safe [OF tw(1)]
  show "\<exists>url name wa tw.
            encodeURIComponent (baseUrl m @ js ''/'' @ directory @ js ''/'' @ filename @ js ''.mp3'') = Inr url
          \<and> encodeURIComponent filename = Inr name
          \<and> encodeURIComponent (whatsapp_message m filename directory) = Inr wa
          \<and> encodeURIComponent (twitter_message m filename directory) = Inr tw
          \<and> sublist url wa \<and> sublist name wa
          \<and> sublist url tw \<and> sublist name tw
          \<and> list_all (\<lambda>c. uriUnescaped c \<or> c = 0x25) wa
          \<and> list_all (\<lambda>c. uriUnescaped c \<or> c = 0x25) tw"
    by blast
qed (rule opened_shareToWhatsApp opened_shareToTwitter)+

lemma example_fileUrl:
  "fileUrl example_manager (js ''sounds'') (js ''gehaald'') = js ''https://vibeboard.example/sounds/gehaald.mp3''"
  by (simp add: fileUrl_def example_manager_def AudioShareManager_def platform_plain_def js_def)

lemma example_whatsapp_message:
  "whatsapp_message example_manager (js ''gehaald'') (js ''sounds'') =
     [0xD83C, 0xDFB5] @ js '' Check out this sound: \"gehaald\"\<newline>\<newline>Listen here: https://vibeboard.example/sounds/gehaald.mp3''"
  by (simp add: whatsapp_message_def example_fileUrl) (simp add: js_def)

lemma example_twitter_message:
  "twitter_message example_manager (js ''gehaald'') (js ''sounds'') =
     [0xD83C, 0xDFB5] @ js '' Check out this awesome sound: \"gehaald\" https://vibeboard.example/sounds/gehaald.mp3''"
  by (simp add: twitter_message_def example_fileUrl) (simp add: js_def)

lemma example_encoded_url:
  "encodeURIComponent (js ''https://vibeboard.example/sounds/gehaald.mp3'') =
     Inr (js ''https%3A%2F%2Fvibeboard.example%2Fsounds%2Fgehaald.mp3'')"
  by (simp add: encode_defs)

lemma example_encoded_name:
  "encodeURIComponent (js ''gehaald'') = Inr (js ''gehaald'')"
  by (simp add: encode_defs)

lemma example_encoded_whatsapp:
  "encodeURIComponent (whatsapp_message example_manager (js ''gehaald'') (js ''sounds'')) =
     Inr (js ''%F0%9F%8E%B5%20Check%20out%20this%20sound%3A%20%22gehaald%22%0A%0AListen%20here%3A%20https%3A%2F%2Fvibeboard.example%2Fsounds%2Fgehaald.mp3'')"
  unfolding example_whatsapp_message by (simp add: encode_defs)

lemma example_encoded_twitter:
  "encodeURIComponent (twitter_message example_manager (js ''gehaald'') (js ''sounds'')) =
     Inr (js ''%F0%9F%8E%B5%20Check%20out%20this%20awesome%20sound%3A%20%22gehaald%22%20https%3A%2F%2Fvibeboard.example%2Fsounds%2Fgehaald.mp3'')"
  unfolding example_twitter_message by (simp add: encode_defs)

theorem deep_links_witness:
  "isWellFormed (baseUrl example_manager) \<and> isWellFormed (js ''sounds'') \<and> isWellFormed (js ''gehaald'')
   \<and> opened empty_page (shareToWhatsApp example_manager (js ''gehaald'') (js ''sounds'') empty_page) =
       [js ''https://wa.me/?text='' @
        js ''%F0%9F%8E%B5%20Check%20out%20this%20sound%3A%20%22gehaald%22%0A%0AListen%20here%3A%20https%3A%2F%2Fvibeboard.example%2Fsounds%2Fgehaald.mp3'']
   \<and> opened empty_page (shareToTwitter example_manager (js ''gehaald'') (js ''sounds'') empty_page) =
       [js ''https://twitter.com/intent/tweet?text='' @
        js ''%F0%9F%8E%B5%20Check%20out%20this%20awesome%20sound%3A%20%22gehaald%22%20https%3A%2F%2Fvibeboard.example%2Fsounds%2Fgehaald.mp3'']
   \<and> sublist (js ''https%3A%2F%2Fvibeboard.example%2Fsounds%2Fgehaald.mp3'')
        (js ''%F0%9F%8E%B5%20Check%20out%20this%20sound%3A%20%22gehaald%22%0A%0AListen%20here%3A%20https%3A%2F%2Fvibeboard.example%2Fsounds%2Fgehaald.mp3'')
   \<and> sublist (js ''gehaald'')
        (js ''%F0%9F%8E%B5%20Check%20out%20this%20sound%3A%20%22gehaald%22%0A%0AListen%20here%3A%20https%3A%2F%2Fvibeboard.example%2Fsounds%2Fgehaald.mp3'')
   \<and> sublist (js ''https%3A%2F%2Fvibeboard.example%2Fsounds%2Fgehaald.mp3'')
        (js ''%F0%9F%8E%B5%20Check%20out%20this%20awesome%20sound%3A%20%22gehaald%22%20https%3A%2F%2Fvibeboard.example%2Fsounds%2Fgehaald.mp3'')
   \<and> sublist (js ''gehaald'')
        (js ''%F0%9F%8E%B5%20Check%20out%20this%20awesome%20sound%3A%20%22gehaald%22%20https%3A%2F%2Fvibeboard.example%2Fsounds%2Fgehaald.mp3'')"
proof -
  note links = deep_links [of empty_page example_manager "js ''gehaald''" "js ''sounds''"]
  have wf: "isWellFormed (baseUrl example_manager) \<and> isWellFormed (js ''sounds'') \<and> isWellFormed (js ''gehaald'')"
    by (simp add: example_manager_def AudioShareManager_def platform_plain_def)
  have url: "baseUrl example_manager @ js ''/'' @ js ''sounds'' @ js ''/'' @ js ''gehaald'' @ js ''.mp3''
      = js ''https://vibeboard.example/sounds/gehaald.mp3''"
    using example_fileUrl by (simp add: fileUrl_def)
  from links wf obtain u n wa tw where
    "encodeURIComponent (baseUrl example_manager @ js ''/'' @ js ''sounds'' @ js ''/'' @ js ''gehaald'' @ js ''.mp3'') = Inr u"
    "encodeURIComponent (js ''gehaald'') = Inr n"
    "encodeURIComponent (whatsapp_message example_manager (js ''gehaald'') (js ''sounds'')) = Inr wa"
    "encodeURIComponent (twitter_message example_manager (js ''gehaald'') (js ''sounds'')) = Inr tw"
    "sublist u wa" "sublist n wa" "sublist u tw" "sublist n tw"
    by blast
  then have contained:
    "sublist (js ''https%3A%2F%2Fvibeboard.example%2Fsounds%2Fgehaald.mp3'')
        (js ''%F0%9F%8E%B5%20Check%20out%20this%20sound%3A%20%22gehaald%22%0A%0AListen%20here%3A%20https%3A%2F%2Fvibeboard.example%2Fsounds%2Fgehaald.mp3'')"
    "sublist (js ''gehaald'')
        (js ''%F0%9F%8E%B5%20Check%20out%20this%20sound%3A%20%22gehaald%22%0A%0AListen%20here%3A%20https%3A%2F%2Fvibeboard.example%2Fsounds%2Fgehaald.mp3'')"
    "sublist (js ''https%3A%2F%2Fvibeboard.example%2Fsounds%2Fgehaald.mp3'')
        (js ''%F0%9F%8E%B5%20Check%20out%20this%20awesome%20sound%3A%20%22gehaald%22%20https%3A%2F%2Fvibeboard.example%2Fsounds%2Fgehaald.mp3'')"
    "sublist (js ''gehaald'')
        (js ''%F0%9F%8E%B5%20Check%20out%20this%20awesome%20sound%3A%20%22gehaald%22%20https%3A%2F%2Fvibeboard.example%2Fsounds%2Fgehaald.mp3'')"
    unfolding url example_encoded_url example_encoded_name example_encoded_whatsapp example_encoded_twitter
    by simp_all
  from links have
    "opened empty_page (shareToWhatsApp example_manager (js ''gehaald'') (js ''sounds'') empty_page) =
       [js ''https://wa.me/?text='' @
        js ''%F0%9F%8E%B5%20Check%20out%20this%20sound%3A%20%22gehaald%22%0A%0AListen%20here%3A%20https%3A%2F%2Fvibeboard.example%2Fsounds%2Fgehaald.mp3'']"
    "opened empty_page (shareToTwitter example_manager (js ''gehaald'') (js ''sounds'') empty_page) =
       [js ''https://twitter.com/intent/tweet?text='' @
        js ''%F0%9F%8E%B5%20Check%20out%20this%20awesome%20sound%3A%20%22gehaald%22%20https%3A%2F%2Fvibeboard.example%2Fsounds%2Fgehaald.mp3'']"
    unfolding example_encoded_whatsapp example_encoded_twitter by simp_all
  with wf contained show ?thesis
    by blast
qed

section \<open>The email composer\<close>

lemma downloadAndShare_steps:
  "\<exists>s1. downloadAndShare filename downloadUrl s = closeModal s1
     \<and> document_body s1 = document_body s
     \<and> object_urls s1 = object_urls s
     \<and> trace s1 = trace s @ [Download downloadUrl (filename @ js ''.mp3'')]"
  by (simp add: downloadAndShare_def Let_def emit_def) (rule exI, intro conjI, rule refl, simp_all)

lemma trace_downloadAndShare:
  "\<exists>t. trace (downloadAndShare filename downloadUrl s) = trace s @ t \<and> window_opens t = []"
proof -
  from downloadAndShare_steps [of filename downloadUrl s] obtain s1 where
    "downloadAndShare filename downloadUrl s = closeModal s1"
    "trace s1 = trace s @ [Download downloadUrl (filename @ js ''.mp3'')]"
    by blast
  moreover from trace_closeModal [of s1] obtain t where
    "trace (closeModal s1) = trace s1 @ t" "window_opens t = []"
    by blast
  ultimately have "trace (downloadAndShare filename downloadUrl s) =
      trace s @ (Download downloadUrl (filename @ js ''.mp3'') # t)"
    "window_opens (Download downloadUrl (filename @ js ''.mp3'') # t) = []"
    by (simp_all add: window_opens_def)
  then show ?thesis
    by blast
qed

lemma opened_shareViaEmail:
  "opened s (shareViaEmail m filename downloadUrl s) =
     (case encodeURIComponent (email_subject filename) of
        Inl e \<Rightarrow> []
      | Inr subject \<Rightarrow>
          (case encodeURIComponent (email_body m filename) of
             Inl e \<Rightarrow> []
           | Inr body \<Rightarrow> [js ''mailto:?subject='' @ subject @ js ''&body='' @ body]))"
proof (cases "encodeURIComponent (email_subject filename)")
  case (Inl e)
  then show ?thesis
    by (simp add: shareViaEmail_def opened_def new_events_def window_opens_def)
next
  case subject: (Inr subject)
  show ?thesis
  proof (cases "encodeURIComponent (email_body m filename)")
    case (Inl e)
    with subject show ?thesis
      by (simp add: shareViaEmail_def opened_def new_events_def window_opens_def)
  next
    case (Inr body)
    let ?link = "js ''mailto:?subject='' @ subject @ js ''&body='' @ body"
    from trace_downloadAndShare [of filename downloadUrl "emit (WindowOpen ?link) s"] obtain t where
      "trace (downloadAndShare filename downloadUrl (emit (WindowOpen ?link) s)) =
         trace s @ (WindowOpen ?link # t)" "window_opens t = []"
      by (auto simp: emit_def)
    with subject Inr show ?thesis
      by (simp add: shareViaEmail_def opened_def window_opens_def)
  qed
qed

lemma js_sounds: "js ''/sounds/'' = js ''/'' @ js ''sounds'' @ js ''/''"
  by (simp add: js_def)

text \<open>
  C9. \<open>shareViaEmail\<close> takes a file name and a download URL and no directory: whatever
  the directory of the shared file, it opens \<open>mailto:?subject=...&body=...\<close> with the
  encoded subject and body, and the body ends with \<open>{baseUrl}/sounds/{filename}.mp3\<close>.
  That is the URL of the shared file only when its directory is \<open>sounds\<close>; for
  \<open>soundz\<close> it is not.
\<close>

theorem shareViaEmail_sounds_url:
  "opened s (shareViaEmail m filename downloadUrl s) =
       (case encodeURIComponent (email_subject filename) of
          Inl e \<Rightarrow> []
        | Inr subject \<Rightarrow>
            (case encodeURIComponent (email_body m filename) of
               Inl e \<Rightarrow> []
             | Inr body \<Rightarrow> [js ''mailto:?subject='' @ subject @ js ''&body='' @ body]))
   \<and> suffix (js ''Note: Download the file from: '' @ baseUrl m @ js ''/sounds/'' @ filename @ js ''.mp3'')
        (email_body m filename)
   \<and> (baseUrl m @ js ''/'' @ directory @ js ''/'' @ filename @ js ''.mp3''
        = baseUrl m @ js ''/sounds/'' @ filename @ js ''.mp3''
      \<longleftrightarrow> directory = js ''sounds'')
   \<and> baseUrl m @ js ''/'' @ js ''soundz'' @ js ''/'' @ filename @ js ''.mp3''
        \<noteq> baseUrl m @ js ''/sounds/'' @ filename @ js ''.mp3''"
proof (intro conjI)
  show "suffix (js ''Note: Download the file from: '' @ baseUrl m @ js ''/sounds/'' @ filename @ js ''.mp3'')
        (email_body m filename)"
    unfolding email_body_def suffix_def
    by (rule exI [of _ "js ''Hey! Check out this awesome sound from Vibeboard: \"'' @ filename @
          js ''\"\<newline>\<newline>I'' @ [0x27] @ js ''ve attached the audio file for you to enjoy!\<newline>\<newline>''"])
       (simp add: js_def)
  have eq: "baseUrl m @ js ''/'' @ d @ js ''/'' @ filename @ js ''.mp3''
        = baseUrl m @ js ''/sounds/'' @ filename @ js ''.mp3'' \<longleftrightarrow> d = js ''sounds''" for d
  proof -
    have "(d @ (js ''/'' @ filename @ js ''.mp3'') = js ''sounds'' @ (js ''/'' @ filename @ js ''.mp3''))
        \<longleftrightarrow> d = js ''sounds''"
      by (rule append_same_eq)
    then show ?thesis
      by (simp add: js_sounds)
  qed
  show "baseUrl m @ js ''/'' @ directory @ js ''/'' @ filename @ js ''.mp3''
        = baseUrl m @ js ''/sounds/'' @ filename @ js ''.mp3'' \<longleftrightarrow> directory = js ''sounds''"
    by (rule eq)
  have "js ''soundz'' \<noteq> js ''sounds''"
    by (simp add: js_def)
  then show "baseUrl m @ js ''/'' @ js ''soundz'' @ js ''/'' @ filename @ js ''.mp3''
        \<noteq> baseUrl m @ js ''/sounds/'' @ filename @ js ''.mp3''"
    using eq [of "js ''soundz''"] by blast
qed (rule opened_shareViaEmail)

lemma example_email_subject:
  "encodeURIComponent (email_subject (js ''gehaald'')) = Inr (js ''Check%20out%20this%20sound%3A%20gehaald'')"
  by (simp add: email_subject_def encode_defs)

lemma example_email_body:
  "encodeURIComponent (email_body example_manager (js ''gehaald'')) =
     Inr (js ''Hey!%20Check%20out%20this%20awesome%20sound%20from%20Vibeboard%3A%20%22gehaald%22%0A%0AI'' @ [0x27] @
          js ''ve%20attached%20the%20audio%20file%20for%20you%20to%20enjoy!%0A%0ANote%3A%20Download%20the%20file%20from%3A%20https%3A%2F%2Fvibeboard.example%2Fsounds%2Fgehaald.mp3'')"
  by (simp add: email_body_def example_manager_def AudioShareManager_def platform_plain_def encode_defs)

theorem shareViaEmail_sounds_url_witness:
  "opened modal_page (shareViaEmail example_manager (js ''gehaald'') (createObjectURL platform_plain 0) modal_page) =
       [js ''mailto:?subject='' @ js ''Check%20out%20this%20sound%3A%20gehaald'' @ js ''&body='' @
        js ''Hey!%20Check%20out%20this%20awesome%20sound%20from%20Vibeboard%3A%20%22gehaald%22%0A%0AI'' @ [0x27] @
        js ''ve%20attached%20the%20audio%20file%20for%20you%20to%20enjoy!%0A%0ANote%3A%20Download%20the%20file%20from%3A%20https%3A%2F%2Fvibeboard.example%2Fsounds%2Fgehaald.mp3'']
   \<and> suffix (js ''Note: Download the file from: '' @ baseUrl example_manager @ js ''/sounds/'' @ js ''gehaald'' @ js ''.mp3'')
        (email_body example_manager (js ''gehaald''))
   \<and> baseUrl example_manager @ js ''/'' @ js ''soundz'' @ js ''/'' @ js ''gehaald'' @ js ''.mp3''
        \<noteq> baseUrl example_manager @ js ''/sounds/'' @ js ''gehaald'' @ js ''.mp3''"
proof -
  note email = shareViaEmail_sounds_url [where m = example_manager and filename = "js ''gehaald''"
      and directory = "js ''soundz''" and downloadUrl = "createObjectURL platform_plain 0" and s = modal_page]
  from email have
    "opened modal_page (shareViaEmail example_manager (js ''gehaald'') (createObjectURL platform_plain 0) modal_page) =
       [js ''mailto:?subject='' @ js ''Check%20out%20this%20sound%3A%20gehaald'' @ js ''&body='' @
        js ''Hey!%20Check%20out%20this%20awesome%20sound%20from%20Vibeboard%3A%20%22gehaald%22%0A%0AI'' @ [0x27] @
        js ''ve%20attached%20the%20audio%20file%20for%20you%20to%20enjoy!%0A%0ANote%3A%20Download%20the%20file%20from%3A%20https%3A%2F%2Fvibeboard.example%2Fsounds%2Fgehaald.mp3'']"
    unfolding example_email_subject example_email_body by simp
  with email show ?thesis
    by blast
qed

section \<open>Closing the modal\<close>

text \<open>Each of the five actions, when it returns, ends with \<open>closeModal\<close> on a page
  with the same document and the same object URLs as before; when it throws it has not
  changed the page.\<close>

lemma click_action_steps:
  "(\<exists>s1. click_action p m a filename directory downloadUrl s = Return () (closeModal s1)
       \<and> document_body s1 = document_body s \<and> object_urls s1 = object_urls s)
   \<or> (\<exists>e. click_action p m a filename directory downloadUrl s = Throw e s)"
proof (cases a)
  case DownloadAndShare
  with downloadAndShare_steps [of filename downloadUrl s] show ?thesis
    by (auto simp: click_action_def)
next
  case ShareViaEmail
  show ?thesis
  proof (cases "\<exists>subject body. encodeURIComponent (email_subject filename) = Inr subject
      \<and> encodeURIComponent (email_body m filename) = Inr body")
    case True
    then obtain subject body where
      enc: "encodeURIComponent (email_subject filename) = Inr subject"
        "encodeURIComponent (email_body m filename) = Inr body"
      by blast
    let ?s0 = "emit (WindowOpen (js ''mailto:?subject='' @ subject @ js ''&body='' @ body)) s"
    from downloadAndShare_steps [of filename downloadUrl ?s0] obtain s1 where
      "downloadAndShare filename downloadUrl ?s0 = closeModal s1"
      "document_body s1 = document_body s" "object_urls s1 = object_urls s"
      by (auto simp: emit_def)
    with enc ShareViaEmail show ?thesis
      by (auto simp: click_action_def shareViaEmail_def)
  next
    case False
    with ShareViaEmail show ?thesis
      by (auto simp: click_action_def shareViaEmail_def split: sum.splits)
  qed
next
  case CopyFileLink
  with copyFileLink_steps [of p m directory filename s] show ?thesis
    by (auto simp: click_action_def)
next
  case ShareToWhatsApp
  show ?thesis
  proof (cases "encodeURIComponent (whatsapp_message m filename directory)")
    case (Inl e)
    with ShareToWhatsApp show ?thesis
      by (simp add: click_action_def shareToWhatsApp_def)
  next
    case (Inr encoded)
    have "document_body (emit (WindowOpen (js ''https://wa.me/?text='' @ encoded)) s) = document_body s"
      "object_urls (emit (WindowOpen (js ''https://wa.me/?text='' @ encoded)) s) = object_urls s"
      by (simp_all add: emit_def)
    with Inr ShareToWhatsApp show ?thesis
      by (auto simp: click_action_def shareToWhatsApp_def)
  qed
next
  case ShareToTwitter
  show ?thesis
  proof (cases "encodeURIComponent (twitter_message m filename directory)")
    case (Inl e)
    with ShareToTwitter show ?thesis
      by (simp add: click_action_def shareToTwitter_def)
  next
    case (Inr encoded)
    have "document_body (emit (WindowOpen (js ''https://twitter.com/intent/tweet?text='' @ encoded)) s) = document_body s"
      "object_urls (emit (WindowOpen (js ''https://twitter.com/intent/tweet?text='' @ encoded)) s) = object_urls s"
      by (simp_all add: emit_def)
    with Inr ShareToTwitter show ?thesis
      by (auto simp: click_action_def shareToTwitter_def)
  qed
qed

text \<open>No button of the modal releases an object URL: neither Close nor any of the five
  actions.\<close>

lemma click_close_object_urls: "object_urls (click_close modal s) = object_urls s"
  by (simp add: click_close_def element_remove_def emit_def)

lemma click_action_object_urls:
  assumes "click_action p m a filename directory downloadUrl s = Return () s'"
  shows "object_urls s' = object_urls s"
  using click_action_steps [of p m a filename directory downloadUrl s] assms
  by auto

text \<open>The click on the backdrop does: the listener revokes the URL that it closed over.\<close>

lemma click_backdrop_object_urls:
  assumes "click_listeners modal = [RevokeAndRemove downloadUrl]"
  shows "object_urls (click_backdrop modal s) = filter (\<lambda>(u, b). u \<noteq> downloadUrl) (object_urls s)"
  using assms
  by (simp add: click_backdrop_def run_listener_def revokeObjectURL_def element_remove_def emit_def)

lemma closeModal_only_modal:
  assumes "document_body s = [modal]" and "className modal = js ''share-modal''"
  shows "document_body (closeModal s) = []"
  using assms by (simp add: closeModal_def element_remove_def emit_def)

lemma isWellFormed_email:
  assumes "isWellFormed (baseUrl m)" and "isWellFormed filename"
  shows "isWellFormed (email_subject filename)" and "isWellFormed (email_body m filename)"
proof -
  have apostrophe: "isWellFormed [0x27]"
    by (simp add: isLowSurrogate_def isHighSurrogate_def)
  show "isWellFormed (email_subject filename)"
    unfolding email_subject_def by (intro isWellFormed_append assms isWellFormed_js)
  show "isWellFormed (email_body m filename)"
    unfolding email_body_def by (intro isWellFormed_append assms isWellFormed_js apostrophe)
qed

lemma click_action_returns:
  assumes "isWellFormed (baseUrl m)" and "isWellFormed directory" and "isWellFormed filename"
  shows "\<exists>s'. click_action p m a filename directory downloadUrl s = Return () s'"
proof -
  obtain url name where
    url: "encodeURIComponent (fileUrl m directory filename) = Inr url" and
    name: "encodeURIComponent filename = Inr name"
    using encoded_parts [OF assms] by blast
  obtain wa tw where
    "encodeURIComponent (whatsapp_message m filename directory) = Inr wa"
    "encodeURIComponent (twitter_message m filename directory) = Inr tw"
    using encoded_whatsapp_message [OF url name] encoded_twitter_message [OF url name] by blast
  moreover obtain subject body where
    "encodeURIComponent (email_subject filename) = Inr subject"
    "encodeURIComponent (email_body m filename) = Inr body"
    using isWellFormed_email [OF assms(1,3)] unfolding encodeURIComponent_wellformed by blast
  ultimately have "\<forall>e. click_action p m a filename directory downloadUrl s \<noteq> Throw e s"
    by (cases a)
       (simp_all add: click_action_def shareViaEmail_def shareToWhatsApp_def shareToTwitter_def
          copyFileLink_def split: outcome.splits)
  with click_action_steps [of p m a filename directory downloadUrl s] show ?thesis
    by blast
qed

text \<open>
  The buttons of the example page. After \<open>share("gehaald", "sounds")\<close> the six buttons
  of the modal carry, whole, the five calls of the manager on \<open>gehaald\<close>,
  \<open>sounds\<close> and the object URL of the page, and the Close handler: the calls that
  \<open>click_action\<close> runs there.
\<close>

lemma example_page_buttons:
  "\<exists>s modal c downloadUrl.
      shareSound platform_clipboard (js ''gehaald'') (js ''sounds'') empty_page = Return () s
    \<and> document_body s = [modal]
    \<and> children modal = [c]
    \<and> object_urls s = [(downloadUrl, mp3)]
    \<and> onclick_values (innerHTML c) =
        [onclick_downloadAndShare (js ''gehaald'') downloadUrl,
         onclick_shareViaEmail (js ''gehaald'') downloadUrl,
         onclick_copyFileLink (js ''sounds'') (js ''gehaald''),
         onclick_shareToWhatsApp (js ''gehaald'') (js ''sounds''),
         onclick_shareToTwitter (js ''gehaald'') (js ''sounds''),
         js ''this.closest('' @ [0x27] @ js ''.share-modal'' @ [0x27] @ js '').remove()'']"
proof -
  let ?p = platform_clipboard
  let ?downloadUrl = "createObjectURL ?p (minted empty_page)"
  have fetch: "fetched (net_fetch ?p (js ''sounds'' @ js ''/'' @ js ''gehaald'' @ js ''.mp3'')) = Some mp3"
    by (simp add: platform_clipboard_def platform_plain_def fetched_def)
  have absent: "\<forall>share. navigator_share ?p = Some share \<longrightarrow>
      share (if can_share_file ?p (mp3_file (js ''gehaald'') mp3) then file_data (js ''gehaald'') mp3
             else text_data (js ''gehaald'')) \<noteq> None"
    by (simp add: platform_clipboard_def platform_plain_def)
  have plain: "0x3C \<notin> set (js ''gehaald'')" "0x22 \<notin> set (js ''gehaald'')"
    "0x3C \<notin> set (js ''sounds'')" "0x22 \<notin> set (js ''sounds'')"
    "0x3C \<notin> set ?downloadUrl" "0x22 \<notin> set ?downloadUrl"
    by (simp_all add: platform_clipboard_def platform_plain_def empty_page_def js_def)
  from shareSound_shows_modal [OF fetch absent, of empty_page] obtain s modal c where
    run: "shareSound ?p (js ''gehaald'') (js ''sounds'') empty_page = Return () s" and
    body: "document_body s = document_body empty_page @ [modal]" and
    content: "children modal = [c]" and
    html: "innerHTML c = share_options_html (js ''gehaald'') (js ''sounds'') ?downloadUrl" and
    urls: "object_urls s = object_urls empty_page @ [(?downloadUrl, mp3)]"
    by blast
  from body urls have page: "document_body s = [modal]" "object_urls s = [(?downloadUrl, mp3)]"
    by (simp_all add: empty_page_def)
  note buttons = onclick_values_plain [OF plain]
  show ?thesis
    by (rule exI [of _ s], rule exI [of _ modal], rule exI [of _ c], rule exI [of _ ?downloadUrl])
       (simp only: run page content html buttons simp_thms)
qed

text \<open>
  C2, on the page that \<open>share("gehaald", "sounds")\<close> leaves on a platform without a
  share surface: the page shows one modal, over one object URL that keeps the fetched
  blob alive. The Close button and each of the five actions remove the modal and leave
  the object URL in the store; the click on the backdrop removes the modal and the URL.
\<close>

theorem close_keeps_object_url:
  "\<exists>s modal downloadUrl.
      shareSound platform_clipboard (js ''gehaald'') (js ''sounds'') empty_page = Return () s
    \<and> document_body s = [modal]
    \<and> object_urls s = [(downloadUrl, mp3)]
    \<and> document_body (click_close modal s) = []
    \<and> object_urls (click_close modal s) = [(downloadUrl, mp3)]
    \<and> (\<forall>a. \<exists>s'. click_action platform_clipboard (AudioShareManager platform_clipboard) a
                  (js ''gehaald'') (js ''sounds'') downloadUrl s = Return () s'
              \<and> document_body s' = []
              \<and> object_urls s' = [(downloadUrl, mp3)])
    \<and> document_body (click_backdrop modal s) = []
    \<and> object_urls (click_backdrop modal s) = []"
proof -
  let ?p = platform_clipboard
  let ?url = "js ''sounds'' @ js ''/'' @ js ''gehaald'' @ js ''.mp3''"
  let ?s2 = "emit (Fetch ?url) empty_page"
  let ?s = "showFileShareOptions ?p (js ''gehaald'') (js ''sounds'') mp3 ?s2"
  let ?downloadUrl = "createObjectURL ?p (minted ?s2)"
  have "fetched (net_fetch ?p ?url) = Some mp3"
    by (simp add: platform_clipboard_def platform_plain_def fetched_def)
  from fetchAudioFile_fetched [OF this]
  have fetch: "fetchAudioFile ?p (js ''sounds'') (js ''gehaald'') empty_page = Return mp3 ?s2" .
  have native: "tryNativeFileShare ?p (js ''gehaald'') mp3 ?s2 = Return False ?s2"
    by (rule tryNativeFileShare_absent) (simp add: platform_clipboard_def platform_plain_def)
  have run: "shareSound ?p (js ''gehaald'') (js ''sounds'') empty_page = Return () ?s"
    by (rule shareSound_not_shared [OF fetch native])
  obtain modal where
    body: "document_body ?s = [modal]" and cls: "className modal = js ''share-modal''" and
    node: "node modal = 0" and
    listeners: "click_listeners modal = [RevokeAndRemove ?downloadUrl]"
    by (simp add: document_body_showFileShareOptions emit_def empty_page_def)
  have urls: "object_urls ?s = [(?downloadUrl, mp3)]"
    by (simp add: object_urls_showFileShareOptions emit_def empty_page_def)
  have close: "document_body (click_close modal ?s) = []"
    by (simp add: click_close_def element_remove_def body emit_fields)
  have close_urls: "object_urls (click_close modal ?s) = [(?downloadUrl, mp3)]"
    by (simp add: click_close_object_urls urls)
  have actions: "\<exists>s'. click_action ?p (AudioShareManager ?p) a (js ''gehaald'') (js ''sounds'') ?downloadUrl ?s
      = Return () s' \<and> document_body s' = [] \<and> object_urls s' = [(?downloadUrl, mp3)]" for a
  proof -
    have "isWellFormed (baseUrl (AudioShareManager ?p))"
      by (simp add: AudioShareManager_def platform_clipboard_def platform_plain_def)
    from click_action_returns [OF this isWellFormed_js isWellFormed_js]
    obtain s' where
      ret: "click_action ?p (AudioShareManager ?p) a (js ''gehaald'') (js ''sounds'') ?downloadUrl ?s = Return () s'"
      by blast
    with click_action_steps [of ?p "AudioShareManager ?p" a "js ''gehaald''" "js ''sounds''" ?downloadUrl ?s]
    obtain s1 where "s' = closeModal s1" "document_body s1 = document_body ?s"
      by auto
    with body cls have "document_body s' = []"
      by (simp add: closeModal_only_modal)
    moreover from click_action_object_urls [OF ret] urls have "object_urls s' = [(?downloadUrl, mp3)]"
      by simp
    ultimately show ?thesis
      using ret by blast
  qed
  have backdrop: "document_body (click_backdrop modal ?s) = []"
    by (simp add: click_backdrop_def run_listener_def listeners revokeObjectURL_def
          element_remove_def body emit_fields)
  have backdrop_urls: "object_urls (click_backdrop modal ?s) = []"
    by (simp add: click_backdrop_object_urls [OF listeners] urls)
  from run body urls close close_urls actions backdrop backdrop_urls show ?thesis
    by blast
qed

section \<open>The service worker\<close>

lemma fetch_all_ok:
  assumes "list_all (\<lambda>u. \<not> fetch_failed (net u)) urls"
  shows "\<exists>rs. fetch_all net urls = Inr rs \<and> map fst rs = urls
           \<and> list_all (\<lambda>(u, r). net u = Resolved r) rs"
  using assms
proof (induction urls)
  case Nil
  then show ?case by simp
next
  case (Cons u us)
  then obtain rs where
    rs: "fetch_all net us = Inr rs" "map fst rs = us" "list_all (\<lambda>(u, r). net u = Resolved r) rs"
    by auto
  from Cons.prems obtain r where r: "net u = Resolved r" "resp_ok r"
    by (auto simp: fetch_failed_def split: fetch_result.splits)
  have "fetch_all net (u # us) = Inr ((u, r) # rs)"
    by (simp add: r rs)
  with r rs show ?case
    by simp
qed

lemma fetch_all_failed:
  assumes "\<not> list_all (\<lambda>u. \<not> fetch_failed (net u)) urls"
  shows "\<exists>e. fetch_all net urls = Inl e"
  using assms
proof (induction urls)
  case Nil
  then show ?case by simp
next
  case (Cons u us)
  show ?case
  proof (cases "fetch_failed (net u)")
    case True
    then show ?thesis
      by (auto simp: fetch_failed_def split: fetch_result.splits)
  next
    case False
    with Cons.prems have "\<not> list_all (\<lambda>u. \<not> fetch_failed (net u)) us"
      by simp
    from Cons.IH [OF this] obtain e where "fetch_all net us = Inl e"
      by blast
    then show ?thesis
      by (simp split: fetch_result.splits)
  qed
qed

lemma map_of_fold_update:
  "map_of (fold (\<lambda>(u, r). AList.update u r) rs c) = map_of c ++ map_of (rev rs)"
proof (induction rs arbitrary: c)
  case Nil
  then show ?case by simp
next
  case (Cons x rs)
  obtain u r where x: "x = (u, r)"
    by (cases x)
  have "map_of (fold (\<lambda>(u, r). AList.update u r) (x # rs) c)
      = map_of (AList.update u r c) ++ map_of (rev rs)"
    by (simp add: x Cons.IH)
  also have "\<dots> = map_of c ++ map_of (rev (x # rs))"
    by (simp add: x update_conv' map_add_upd_left map_add_assoc [symmetric] fun_upd_def [symmetric])
  finally show ?case .
qed

lemma keys_fold_update:
  "fst ` set (fold (\<lambda>(u, r). AList.update u r) rs c) = fst ` set c \<union> fst ` set rs"
proof -
  have "dom (map_of (fold (\<lambda>(u, r). AList.update u r) rs c)) = dom (map_of c) \<union> dom (map_of (rev rs))"
    by (simp add: map_of_fold_update Un_commute)
  then show ?thesis
    by (simp add: dom_map_of_conv_image_fst)
qed

lemma stored_fold_update:
  assumes "list_all (\<lambda>(u, r). net u = Resolved r) rs" and "u \<in> fst ` set rs"
  shows "\<exists>r. map_of (fold (\<lambda>(u, r). AList.update u r) rs c) u = Some r \<and> net u = Resolved r"
proof -
  from assms(2) have "u \<in> dom (map_of (rev rs))"
    by (simp add: dom_map_of_conv_image_fst)
  then obtain r where r: "map_of (rev rs) u = Some r"
    by blast
  then have "(u, r) \<in> set rs"
    using map_of_SomeD by fastforce
  with assms(1) have "net u = Resolved r"
    by (auto simp: list_all_iff)
  with r show ?thesis
    by (simp add: map_of_fold_update map_add_Some_iff)
qed

lemma caches_open_storage:
  "snd (caches_open name cs) = (if name \<in> fst ` set cs then cs else cs @ [(name, [])])"
  "map_of (snd (caches_open name cs)) name = Some (fst (caches_open name cs))"
  "fst (caches_open name cs) = (case map_of cs name of None \<Rightarrow> [] | Some c \<Rightarrow> c)"
proof -
  show "fst (caches_open name cs) = (case map_of cs name of None \<Rightarrow> [] | Some c \<Rightarrow> c)"
    by (simp add: caches_open_def split: option.splits)
  show "snd (caches_open name cs) = (if name \<in> fst ` set cs then cs else cs @ [(name, [])])"
  proof (cases "map_of cs name")
    case None
    then have "name \<notin> fst ` set cs"
      by (simp add: map_of_eq_None_iff)
    with None show ?thesis
      by (simp add: caches_open_def)
  next
    case (Some c)
    then have "name \<in> fst ` set cs"
      by (metis map_of_eq_None_iff option.distinct(1))
    with Some show ?thesis
      by (simp add: caches_open_def)
  qed
  show "map_of (snd (caches_open name cs)) name = Some (fst (caches_open name cs))"
    by (cases "map_of cs name") (simp_all add: caches_open_def map_add_Some_iff)
qed

lemma install_eq:
  "install net origin cs =
     (case cache_addAll net (map (\<lambda>path. origin @ path) urlsToCache) (fst (caches_open CACHE_NAME cs)) of
        Inl e \<Rightarrow> (Some e, snd (caches_open CACHE_NAME cs))
      | Inr c' \<Rightarrow> (None, AList.update CACHE_NAME c' (snd (caches_open CACHE_NAME cs))))"
  by (cases "caches_open CACHE_NAME cs") (simp add: install_def split: sum.splits)

lemma install_names:
  "map fst (snd (install net origin cs)) =
     (if CACHE_NAME \<in> fst ` set cs then map fst cs else map fst cs @ [CACHE_NAME])"
  by (simp add: install_eq caches_open_storage(1) update_keys split: sum.splits)

lemma install_other_caches:
  assumes "name \<noteq> CACHE_NAME"
  shows "map_of (snd (install net origin cs)) name = map_of cs name"
  using assms
  by (auto simp: install_eq caches_open_storage(1) update_conv' map_add_def
        split: sum.splits option.splits)

lemma install_ok:
  assumes "list_all (\<lambda>path. \<not> fetch_failed (net (origin @ path))) urlsToCache"
  shows "fst (install net origin cs) = None
       \<and> (\<exists>c'. map_of (snd (install net origin cs)) CACHE_NAME = Some c'
            \<and> fst ` set c' = fst ` set (fst (caches_open CACHE_NAME cs))
                \<union> (\<lambda>path. origin @ path) ` set urlsToCache
            \<and> list_all (\<lambda>path. \<exists>r. map_of c' (origin @ path) = Some r
                  \<and> net (origin @ path) = Resolved r) urlsToCache)"
proof -
  let ?urls = "map (\<lambda>path. origin @ path) urlsToCache"
  let ?c = "fst (caches_open CACHE_NAME cs)"
  from assms have "list_all (\<lambda>u. \<not> fetch_failed (net u)) ?urls"
    by (simp add: list_all_iff)
  from fetch_all_ok [OF this] obtain rs where
    rs: "fetch_all net ?urls = Inr rs" "map fst rs = ?urls" "list_all (\<lambda>(u, r). net u = Resolved r) rs"
    by blast
  let ?c' = "fold (\<lambda>(u, r). AList.update u r) rs ?c"
  have added: "cache_addAll net ?urls ?c = Inr ?c'"
    by (simp add: cache_addAll_def rs(1))
  have keys: "fst ` set rs = (\<lambda>path. origin @ path) ` set urlsToCache"
    using rs(2) by (metis list.set_map)
  have "fst (install net origin cs) = None"
    by (simp add: install_eq added)
  moreover have "map_of (snd (install net origin cs)) CACHE_NAME = Some ?c'"
    by (simp add: install_eq added update_conv')
  moreover have "fst ` set ?c' = fst ` set ?c \<union> (\<lambda>path. origin @ path) ` set urlsToCache"
    by (simp add: keys_fold_update keys)
  moreover have "list_all (\<lambda>path. \<exists>r. map_of ?c' (origin @ path) = Some r
      \<and> net (origin @ path) = Resolved r) urlsToCache"
    unfolding list_all_iff
  proof
    fix path
    assume "path \<in> set urlsToCache"
    then have "origin @ path \<in> fst ` set rs"
      by (simp add: keys)
    from stored_fold_update [OF rs(3) this]
    show "\<exists>r. map_of ?c' (origin @ path) = Some r \<and> net (origin @ path) = Resolved r" .
  qed
  ultimately show ?thesis
    by blast
qed

lemma install_failed:
  assumes "\<not> list_all (\<lambda>path. \<not> fetch_failed (net (origin @ path))) urlsToCache"
  shows "(\<exists>e. fst (install net origin cs) = Some e)
       \<and> map_of (snd (install net origin cs)) CACHE_NAME = Some (fst (caches_open CACHE_NAME cs))"
proof -
  let ?urls = "map (\<lambda>path. origin @ path) urlsToCache"
  from assms have "\<not> list_all (\<lambda>u. \<not> fetch_failed (net u)) ?urls"
    by (simp add: list_all_iff)
  from fetch_all_failed [OF this] obtain e where "fetch_all net ?urls = Inl e"
    by blast
  then have "cache_addAll net ?urls c = Inl e" for c
    by (simp add: cache_addAll_def)
  then show ?thesis
    by (simp add: install_eq caches_open_storage(2))
qed

text \<open>
  C8. The \<open>fetch\<close> listener answers with the cached response when
  \<open>caches.match\<close> finds one, without a request to the network, and otherwise with
  what the network answers to the request. The \<open>install\<close> listener opens the cache
  \<open>vibeboard-cache-v1\<close> and no other: it creates that cache when it is missing and
  leaves every other cache as it was. When every path of the manifest arrives with an OK
  status, the installation succeeds and the cache has gained exactly the URLs of the
  manifest, each with the response of the network; otherwise the installation fails and
  the cache holds what it held.
\<close>

theorem service_worker_cache_first:
  "(caches_match cs request = Some response \<longrightarrow> on_fetch net cs request = (Resolved response, []))
   \<and> (caches_match cs request = None \<longrightarrow> on_fetch net cs request = (net request, [request]))
   \<and> map fst (snd (install net origin cs)) =
       (if CACHE_NAME \<in> fst ` set cs then map fst cs else map fst cs @ [CACHE_NAME])
   \<and> (\<forall>name. name \<noteq> CACHE_NAME \<longrightarrow> map_of (snd (install net origin cs)) name = map_of cs name)
   \<and> (list_all (\<lambda>path. \<not> fetch_failed (net (origin @ path))) urlsToCache \<longrightarrow>
        fst (install net origin cs) = None
        \<and> (\<exists>c'. map_of (snd (install net origin cs)) CACHE_NAME = Some c'
             \<and> fst ` set c' = fst ` set (fst (caches_open CACHE_NAME cs))
                 \<union> (\<lambda>path. origin @ path) ` set urlsToCache
             \<and> list_all (\<lambda>path. \<exists>r. map_of c' (origin @ path) = Some r
                   \<and> net (origin @ path) = Resolved r) urlsToCache))
   \<and> (\<not> list_all (\<lambda>path. \<not> fetch_failed (net (origin @ path))) urlsToCache \<longrightarrow>
        (\<exists>e. fst (install net origin cs) = Some e)
        \<and> map_of (snd (install net origin cs)) CACHE_NAME = Some (fst (caches_open CACHE_NAME cs)))"
proof (intro conjI impI allI)
  show "on_fetch net cs request = (Resolved response, [])" if "caches_match cs request = Some response"
    using that by (simp add: on_fetch_def)
  show "on_fetch net cs request = (net request, [request])" if "caches_match cs request = None"
    using that by (simp add: on_fetch_def)
  show "map fst (snd (install net origin cs)) =
       (if CACHE_NAME \<in> fst ` set cs then map fst cs else map fst cs @ [CACHE_NAME])"
    by (rule install_names)
  show "map_of (snd (install net origin cs)) name = map_of cs name" if "name \<noteq> CACHE_NAME" for name
    using that by (rule install_other_caches)
next
  assume ok: "list_all (\<lambda>path. \<not> fetch_failed (net (origin @ path))) urlsToCache"
  from install_ok [OF ok, of cs]
  show "fst (install net origin cs) = None"
    and "\<exists>c'. map_of (snd (install net origin cs)) CACHE_NAME = Some c'
             \<and> fst ` set c' = fst ` set (fst (caches_open CACHE_NAME cs))
                 \<union> (\<lambda>path. origin @ path) ` set urlsToCache
             \<and> list_all (\<lambda>path. \<exists>r. map_of c' (origin @ path) = Some r
                   \<and> net (origin @ path) = Resolved r) urlsToCache"
    by blast+
next
  assume failed: "\<not> list_all (\<lambda>path. \<not> fetch_failed (net (origin @ path))) urlsToCache"
  from install_failed [OF failed, of cs]
  show "\<exists>e. fst (install net origin cs) = Some e"
    and "map_of (snd (install net origin cs)) CACHE_NAME = Some (fst (caches_open CACHE_NAME cs))"
    by blast+
qed

theorem service_worker_cache_first_witness:
  "caches_match old_caches (js ''https://vibeboard.example/'') = Some page_response
   \<and> on_fetch (net_fetch platform_plain) old_caches (js ''https://vibeboard.example/'')
       = (Resolved page_response, [])
   \<and> caches_match old_caches (js ''https://vibeboard.example/sounds/gehaald.mp3'') = None
   \<and> on_fetch (net_fetch platform_plain) old_caches (js ''https://vibeboard.example/sounds/gehaald.mp3'')
       = (Resolved mp3_response, [js ''https://vibeboard.example/sounds/gehaald.mp3''])
   \<and> js ''vibeboard-cache-v0'' \<noteq> CACHE_NAME
   \<and> map_of (snd (install (net_fetch platform_plain) example_origin old_caches)) (js ''vibeboard-cache-v0'')
       = Some [(js ''https://vibeboard.example/'', page_response)]
   \<and> map fst (snd (install (net_fetch platform_plain) example_origin old_caches))
       = [js ''vibeboard-cache-v0'', CACHE_NAME]
   \<and> list_all (\<lambda>path. \<not> fetch_failed (net_fetch platform_plain (example_origin @ path))) urlsToCache
   \<and> fst (install (net_fetch platform_plain) example_origin old_caches) = None
   \<and> (\<exists>c'. map_of (snd (install (net_fetch platform_plain) example_origin old_caches)) CACHE_NAME = Some c'
         \<and> fst ` set c' = (\<lambda>path. example_origin @ path) ` set urlsToCache
         \<and> list_all (\<lambda>path. map_of c' (example_origin @ path) = Some mp3_response) urlsToCache)
   \<and> \<not> list_all (\<lambda>path. \<not> fetch_failed (net_fetch platform_404 (example_origin @ path))) urlsToCache
   \<and> (\<exists>e. fst (install (net_fetch platform_404) example_origin old_caches) = Some e)
   \<and> map_of (snd (install (net_fetch platform_404) example_origin old_caches)) CACHE_NAME = Some []"
proof -
  let ?net = "net_fetch platform_plain"
  have names: "js ''vibeboard-cache-v0'' \<noteq> CACHE_NAME"
    by (simp add: CACHE_NAME_def js_def)
  have hit: "caches_match old_caches (js ''https://vibeboard.example/'') = Some page_response"
    by (simp add: old_caches_def)
  have miss: "caches_match old_caches (js ''https://vibeboard.example/sounds/gehaald.mp3'') = None"
    by (simp add: old_caches_def js_def)
  have net: "?net u = Resolved mp3_response" for u
    by (simp add: platform_plain_def mp3_response_def)
  have none: "fst (caches_open CACHE_NAME old_caches) = []"
    using names by (simp add: caches_open_def old_caches_def)
  have ok: "list_all (\<lambda>path. \<not> fetch_failed (?net (example_origin @ path))) urlsToCache"
    by (simp add: net fetch_failed_def mp3_response_def list_all_iff)
  have failed: "\<not> list_all (\<lambda>path. \<not> fetch_failed (net_fetch platform_404 (example_origin @ path))) urlsToCache"
    by (simp add: platform_404_def fetch_failed_def urlsToCache_def)
  note cached = service_worker_cache_first [where cs = old_caches and net = ?net and origin = example_origin
      and request = "js ''https://vibeboard.example/''" and response = page_response]
  note network = service_worker_cache_first [where cs = old_caches and net = ?net and origin = example_origin
      and request = "js ''https://vibeboard.example/sounds/gehaald.mp3''"]
  note offline = service_worker_cache_first [where cs = old_caches and net = "net_fetch platform_404"
      and origin = example_origin]
  from cached hit have a: "on_fetch ?net old_caches (js ''https://vibeboard.example/'') = (Resolved page_response, [])"
    by blast
  from network miss have b: "on_fetch ?net old_caches (js ''https://vibeboard.example/sounds/gehaald.mp3'')
       = (Resolved mp3_response, [js ''https://vibeboard.example/sounds/gehaald.mp3''])"
    by (simp add: net)
  from cached names have c: "map_of (snd (install ?net example_origin old_caches)) (js ''vibeboard-cache-v0'')
       = Some [(js ''https://vibeboard.example/'', page_response)]"
    by (simp add: old_caches_def)
  from cached names have d: "map fst (snd (install ?net example_origin old_caches))
       = [js ''vibeboard-cache-v0'', CACHE_NAME]"
    by (auto simp: old_caches_def)
  from cached ok have e: "fst (install ?net example_origin old_caches) = None"
    by blast
  from cached ok obtain c' where
    c': "map_of (snd (install ?net example_origin old_caches)) CACHE_NAME = Some c'"
      "fst ` set c' = fst ` set (fst (caches_open CACHE_NAME old_caches))
          \<union> (\<lambda>path. example_origin @ path) ` set urlsToCache"
      "list_all (\<lambda>path. \<exists>r. map_of c' (example_origin @ path) = Some r
          \<and> ?net (example_origin @ path) = Resolved r) urlsToCache"
    by blast
  from c'(3) have "list_all (\<lambda>path. map_of c' (example_origin @ path) = Some mp3_response) urlsToCache"
    by (auto simp: net list_all_iff)
  with c'(1,2) have f: "\<exists>c'. map_of (snd (install ?net example_origin old_caches)) CACHE_NAME = Some c'
         \<and> fst ` set c' = (\<lambda>path. example_origin @ path) ` set urlsToCache
         \<and> list_all (\<lambda>path. map_of c' (example_origin @ path) = Some mp3_response) urlsToCache"
    by (simp add: none)
  from offline failed have g: "\<exists>e. fst (install (net_fetch platform_404) example_origin old_caches) = Some e"
    "map_of (snd (install (net_fetch platform_404) example_origin old_caches)) CACHE_NAME = Some []"
    by (simp_all add: none)
  from hit a miss b names c d ok e f failed g show ?thesis
    by blast
qed

end
